theory Spec2Isabelle
  imports Complex_Main
begin

section \<open>Values of the runtime\<close>

text \<open>
  A JavaScript \<open>number\<close>: not-a-number, the two infinities, or a finite value.
  Negative zero is \<open>Num 0\<close>: the code below only compares numbers and tests their
  truthiness, and both zeros agree on that.
\<close>

datatype number = NaN | PosInfinity | NegInfinity | Num real

text \<open>The truthiness of a number: every number but \<open>0\<close> and \<open>NaN\<close>.\<close>

fun number_truthy :: "number \<Rightarrow> bool" where
  "number_truthy NaN = False"
| "number_truthy PosInfinity = True"
| "number_truthy NegInfinity = True"
| "number_truthy (Num r) = (r \<noteq> 0)"

text \<open>The comparison \<open>a < b\<close> of two numbers; any comparison with \<open>NaN\<close> is false.\<close>

fun number_less :: "number \<Rightarrow> number \<Rightarrow> bool" where
  "number_less NaN b = False"
| "number_less a NaN = False"
| "number_less PosInfinity b = False"
| "number_less NegInfinity b = (b \<noteq> NegInfinity)"
| "number_less (Num r) PosInfinity = True"
| "number_less (Num r) NegInfinity = False"
| "number_less (Num r) (Num s) = (r < s)"

text \<open>
  A value met where the code expects an instance of some class or a primitive of some
  type, and checks it at run time: \<open>Instance x\<close> passes the check, \<open>Falsy\<close> is a falsy
  value that does not (\<open>undefined\<close>, \<open>null\<close>), \<open>Wrong\<close> a truthy value that does not.
\<close>

datatype 'a js_value = Falsy | Wrong | Instance 'a

text \<open>
  An optional property of an options object: the key is absent, or present with a
  value. An object spread \<open>{ k: dflt, ...options }\<close> keeps \<open>dflt\<close> only when the
  key is absent.
\<close>

datatype 'a field = Absent | Present 'a

fun spread :: "'a \<Rightarrow> 'a field \<Rightarrow> 'a" where
  "spread dflt Absent = dflt"
| "spread dflt (Present v) = v"

type_synonym snowflake = string

section \<open>Errors\<close>

datatype err_code =
  INVALID_TYPE | NUMBER_COMPARE | EMPTY_ARRAY | NO_VALID_SONG | NO_RESULT | NO_QUEUE
  | OTHER_CODE string

text \<open>
  What a \<open>throw\<close> carries: a \<open>DisTubeError\<close> with its code and the name of the
  argument it is about, another \<open>Error\<close> object with its \<open>name\<close> and \<open>message\<close>,
  or a thrown value whose properties cannot be assigned.
\<close>

datatype error =
  DisTubeError err_code string
  | Error string string
  | ThrownValue

section \<open>The data of type.ts\<close>

datatype RepeatMode = DISABLED | SONG | QUEUE

text \<open>The numeric value of each member of the enum: 0, 1, 2 in order of declaration.\<close>

fun RepeatMode_value :: "RepeatMode \<Rightarrow> number" where
  "RepeatMode_value DISABLED = Num 0"
| "RepeatMode_value SONG = Num 1"
| "RepeatMode_value QUEUE = Num 2"

definition RepeatMode_of :: "number \<Rightarrow> RepeatMode option" where
  "RepeatMode_of n =
     (if n = Num 0 then Some DISABLED
      else if n = Num 1 then Some SONG
      else if n = Num 2 then Some QUEUE
      else None)"

datatype SearchResultType = VIDEO | PLAYLIST

record Song =
  url :: string

record SearchResult =
  sr_type :: SearchResultType
  sr_url :: string

record Playlist =
  pl_songs :: "Song list"
  pl_url :: string

record GuildMember =
  member_id :: snowflake

record TextChannel =
  channel_id :: snowflake

record Message =
  channel :: "TextChannel js_value"

record VoiceBasedChannel =
  guildId :: snowflake
  me :: "GuildMember option"

section \<open>TaskQueue\<close>

text \<open>
  Modelled from the spec: the class \<open>TaskQueue\<close> is not among the sources. The spec
  gives it as a FIFO of pending tasks, each flagged as resolve-class or ordinary, the
  head being the running one: \<open>queuing\<close> enqueues a waiter, \<open>resolve\<close> signals that
  the current task is complete, and \<open>hasResolveTask\<close> reports whether a resolve-class
  task is queued or running.
\<close>

type_synonym TaskQueue = "bool list"

definition queuing :: "bool \<Rightarrow> TaskQueue \<Rightarrow> TaskQueue" where
  "queuing isResolveTask tq = tq @ [isResolveTask]"

definition resolve :: "TaskQueue \<Rightarrow> TaskQueue" where
  "resolve tq = drop 1 tq"

definition hasResolveTask :: "TaskQueue \<Rightarrow> bool" where
  "hasResolveTask tq = (True \<in> set tq)"

section \<open>Queue\<close>

text \<open>
  Modelled from the spec: the classes \<open>Queue\<close> and \<open>DisTubeVoice\<close> are not among the
  sources. Of the attributes the spec lists, the record keeps those the operations
  below read or write: the guild identity, the volume, the repeat mode, the autoplay
  flag, the bound voice handle with the volume of its stream, and the task queue.
\<close>

record DisTubeVoice =
  stream_volume :: number

record Queue =
  queue_id :: snowflake
  volume :: number
  repeatMode :: RepeatMode
  autoplay :: bool
  voice :: DisTubeVoice
  taskQueue :: TaskQueue

text \<open>
  Modelled from the spec: \<open>Queue.setVolume\<close> is not among the sources. The spec:
  "validates \<open>percent > 0\<close>; applies immediately to the active stream", failing with
  an invalid-argument error otherwise.
\<close>

definition Queue_setVolume :: "Queue \<Rightarrow> number \<Rightarrow> error + Queue" where
  "Queue_setVolume q percent =
     (if number_less (Num 0) percent
      then Inr (q\<lparr>volume := percent, voice := (voice q)\<lparr>stream_volume := percent\<rparr>\<rparr>)
      else Inl (DisTubeError INVALID_TYPE ''percent''))"

text \<open>
  Modelled from the spec: \<open>Queue.setRepeatMode\<close> is not among the sources. The spec:
  "explicit set if \<open>mode\<close> given and valid, otherwise cycles
  \<open>DISABLED \<rightarrow> SONG \<rightarrow> QUEUE \<rightarrow> DISABLED\<close>; returns the resulting mode".
\<close>

fun cycle :: "RepeatMode \<Rightarrow> RepeatMode" where
  "cycle DISABLED = SONG"
| "cycle SONG = QUEUE"
| "cycle QUEUE = DISABLED"

definition Queue_setRepeatMode :: "Queue \<Rightarrow> number option \<Rightarrow> RepeatMode \<times> Queue" where
  "Queue_setRepeatMode q mode =
     (let m = (case mode of
                 None \<Rightarrow> cycle (repeatMode q)
               | Some n \<Rightarrow> (case RepeatMode_of n of
                             Some given \<Rightarrow> given
                           | None \<Rightarrow> cycle (repeatMode q)))
      in (m, q\<lparr>repeatMode := m\<rparr>))"

section \<open>QueueManager and the guild-identifying inputs\<close>

text \<open>
  The union \<open>GuildIdResolvable\<close> of type.ts, one constructor for each member, each
  carrying the guild identity the input stands for.
\<close>

datatype GuildIdResolvable =
  OfQueue Queue
  | OfDisTubeVoice snowflake
  | OfSnowflake snowflake
  | OfMessage snowflake
  | OfGuildTextBasedChannel snowflake
  | OfVoiceBasedChannel VoiceBasedChannel
  | OfVoiceState snowflake
  | OfGuild snowflake
  | OfGuildMember snowflake
  | OfInteraction snowflake

text \<open>
  Modelled from the spec: the function that resolves a guild-identifying input is not
  among the sources. The spec: "a single pure function mapping a closed set of tagged
  input variants to a guild identity".
\<close>

fun resolveGuildId :: "GuildIdResolvable \<Rightarrow> snowflake" where
  "resolveGuildId (OfQueue q) = queue_id q"
| "resolveGuildId (OfDisTubeVoice g) = g"
| "resolveGuildId (OfSnowflake g) = g"
| "resolveGuildId (OfMessage g) = g"
| "resolveGuildId (OfGuildTextBasedChannel g) = g"
| "resolveGuildId (OfVoiceBasedChannel c) = guildId c"
| "resolveGuildId (OfVoiceState g) = g"
| "resolveGuildId (OfGuild g) = g"
| "resolveGuildId (OfGuildMember g) = g"
| "resolveGuildId (OfInteraction g) = g"

text \<open>
  The state of a \<open>DisTube\<close> object that its methods read and write: the registry of
  queues, keyed by guild identity.
\<close>

record DisTube =
  queues :: "snowflake \<rightharpoonup> Queue"

text \<open>
  Modelled from the spec: \<open>QueueManager.get\<close> is not among the sources. The spec:
  "resolves any of several guild-identifying inputs to the registered \<open>Queue\<close> or
  \<open>undefined\<close>".
\<close>

definition QueueManager_get :: "(snowflake \<rightharpoonup> Queue) \<Rightarrow> GuildIdResolvable \<Rightarrow> Queue option" where
  "QueueManager_get qs guild = qs (resolveGuildId guild)"

section \<open>DisTube: the queue operations\<close>

definition getQueue :: "DisTube \<Rightarrow> GuildIdResolvable \<Rightarrow> Queue option" where
  "getQueue d guild = QueueManager_get (queues d) guild"

text \<open>The private \<open>#getQueue\<close>: the queue, or the error \<open>NO_QUEUE\<close>.\<close>

definition getQueue_private :: "DisTube \<Rightarrow> GuildIdResolvable \<Rightarrow> error + Queue" where
  "getQueue_private d guild =
     (case getQueue d guild of
        None \<Rightarrow> Inl (DisTubeError NO_QUEUE [])
      | Some queue \<Rightarrow> Inr queue)"

text \<open>
  A method of \<open>Queue\<close> changes the queue object that the registry holds; the model
  writes the changed queue back under the guild it was found at.
\<close>

definition put_queue :: "DisTube \<Rightarrow> GuildIdResolvable \<Rightarrow> Queue \<Rightarrow> DisTube" where
  "put_queue d guild q = d\<lparr>queues := (queues d)(resolveGuildId guild \<mapsto> q)\<rparr>"

text \<open>
  The methods \<open>pause\<close>, \<open>resume\<close>, \<open>stop\<close>, \<open>skip\<close>, \<open>previous\<close>, \<open>shuffle\<close>, \<open>jump\<close>,
  \<open>addRelatedSong\<close> and \<open>seek\<close> of \<open>DisTube\<close> each look the queue up with
  \<open>#getQueue\<close> and hand it to the method of \<open>Queue\<close> of the same name. Those methods
  are not among the sources: each is a parameter here, standing for whatever the method
  does with the queue it is given.
\<close>

definition pause :: "(Queue \<Rightarrow> 'r) \<Rightarrow> DisTube \<Rightarrow> GuildIdResolvable \<Rightarrow> error + 'r" where
  "pause Queue_pause d guild =
     (case getQueue_private d guild of Inl e \<Rightarrow> Inl e | Inr q \<Rightarrow> Inr (Queue_pause q))"

definition resume :: "(Queue \<Rightarrow> 'r) \<Rightarrow> DisTube \<Rightarrow> GuildIdResolvable \<Rightarrow> error + 'r" where
  "resume Queue_resume d guild =
     (case getQueue_private d guild of Inl e \<Rightarrow> Inl e | Inr q \<Rightarrow> Inr (Queue_resume q))"

definition stop :: "(Queue \<Rightarrow> 'r) \<Rightarrow> DisTube \<Rightarrow> GuildIdResolvable \<Rightarrow> error + 'r" where
  "stop Queue_stop d guild =
     (case getQueue_private d guild of Inl e \<Rightarrow> Inl e | Inr q \<Rightarrow> Inr (Queue_stop q))"

definition setVolume :: "DisTube \<Rightarrow> GuildIdResolvable \<Rightarrow> number \<Rightarrow> (error + Queue) \<times> DisTube" where
  "setVolume d guild percent =
     (case getQueue_private d guild of
        Inl e \<Rightarrow> (Inl e, d)
      | Inr q \<Rightarrow>
          (case Queue_setVolume q percent of
             Inl e \<Rightarrow> (Inl e, d)
           | Inr q' \<Rightarrow> (Inr q', put_queue d guild q')))"

definition skip :: "(Queue \<Rightarrow> 'r) \<Rightarrow> DisTube \<Rightarrow> GuildIdResolvable \<Rightarrow> error + 'r" where
  "skip Queue_skip d guild =
     (case getQueue_private d guild of Inl e \<Rightarrow> Inl e | Inr q \<Rightarrow> Inr (Queue_skip q))"

definition previous :: "(Queue \<Rightarrow> 'r) \<Rightarrow> DisTube \<Rightarrow> GuildIdResolvable \<Rightarrow> error + 'r" where
  "previous Queue_previous d guild =
     (case getQueue_private d guild of Inl e \<Rightarrow> Inl e | Inr q \<Rightarrow> Inr (Queue_previous q))"

definition shuffle :: "(Queue \<Rightarrow> 'r) \<Rightarrow> DisTube \<Rightarrow> GuildIdResolvable \<Rightarrow> error + 'r" where
  "shuffle Queue_shuffle d guild =
     (case getQueue_private d guild of Inl e \<Rightarrow> Inl e | Inr q \<Rightarrow> Inr (Queue_shuffle q))"

definition jump :: "(Queue \<Rightarrow> number \<Rightarrow> 'r) \<Rightarrow> DisTube \<Rightarrow> GuildIdResolvable \<Rightarrow> number \<Rightarrow> error + 'r" where
  "jump Queue_jump d guild num =
     (case getQueue_private d guild of Inl e \<Rightarrow> Inl e | Inr q \<Rightarrow> Inr (Queue_jump q num))"

definition setRepeatMode ::
  "DisTube \<Rightarrow> GuildIdResolvable \<Rightarrow> number option \<Rightarrow> (error + number) \<times> DisTube" where
  "setRepeatMode d guild mode =
     (case getQueue_private d guild of
        Inl e \<Rightarrow> (Inl e, d)
      | Inr q \<Rightarrow>
          (case Queue_setRepeatMode q mode of
             (m, q') \<Rightarrow> (Inr (RepeatMode_value m), put_queue d guild q')))"

definition toggleAutoplay :: "DisTube \<Rightarrow> GuildIdResolvable \<Rightarrow> (error + bool) \<times> DisTube" where
  "toggleAutoplay d guild =
     (case getQueue_private d guild of
        Inl e \<Rightarrow> (Inl e, d)
      | Inr queue \<Rightarrow>
          (let queue' = queue\<lparr>autoplay := \<not> autoplay queue\<rparr>
           in (Inr (autoplay queue'), put_queue d guild queue')))"

definition addRelatedSong :: "(Queue \<Rightarrow> 'r) \<Rightarrow> DisTube \<Rightarrow> GuildIdResolvable \<Rightarrow> error + 'r" where
  "addRelatedSong Queue_addRelatedSong d guild =
     (case getQueue_private d guild of
        Inl e \<Rightarrow> Inl e
      | Inr q \<Rightarrow> Inr (Queue_addRelatedSong q))"

definition seek :: "(Queue \<Rightarrow> number \<Rightarrow> 'r) \<Rightarrow> DisTube \<Rightarrow> GuildIdResolvable \<Rightarrow> number \<Rightarrow> error + 'r" where
  "seek Queue_seek d guild time =
     (case getQueue_private d guild of Inl e \<Rightarrow> Inl e | Inr q \<Rightarrow> Inr (Queue_seek q time))"

section \<open>The collaborators of DisTube\<close>

text \<open>
  What \<open>play\<close>, \<open>search\<close> and \<open>createCustomPlaylist\<close> are given as a song: a string,
  a \<open>Song\<close>, a \<open>SearchResult\<close> or a \<open>Playlist\<close>. The resolver turns one into a
  \<open>Song\<close> or a \<open>Playlist\<close>.
\<close>

datatype song_arg = Str string | ASong Song | AResult SearchResult | APlaylist Playlist

datatype resolved = RSong Song | RPlaylist Playlist

text \<open>An item of what the search library \<open>ytsr\<close> returns, and the options it is called with.\<close>

record ytsr_item =
  item_type :: string
  item_url :: string

record ytsr_request =
  rq_string :: string
  rq_type :: SearchResultType
  rq_limit :: number
  rq_safeSearch :: bool
  rq_retried :: "bool js_value field"

text \<open>
  The functions and objects that \<open>DisTube\<close> calls and that are not among the sources,
  taken as parameters: the predicate \<open>isURL\<close>, the list of custom plugins (each with
  its \<open>validate\<close> and \<open>play\<close>), the search library \<open>ytsr\<close> (the outcome of its
  \<open>n\<close>-th call is \<open>ytsr n\<close>, so that it may answer a retry differently), the methods
  of the handler and the constructor of \<open>Playlist\<close>. Each returns its value or the
  error it throws. The song given to the resolver is \<open>None\<close> when it is \<open>undefined\<close>.
\<close>

text \<open>
  The property \<open>message\<close> of the options of \<open>play\<close>: a falsy value, a truthy value
  that is not a \<open>Message\<close> (with whatever its property \<open>channel\<close> holds), or a
  \<open>Message\<close>.
\<close>

datatype message_value = NoMessage | NotMessage "TextChannel js_value" | AMessage Message

text \<open>
  \<open>PlayOptions\<close>. The property \<open>position\<close> is a number when it is present, as its
  type has it.
\<close>

record PlayOptions =
  po_textChannel :: "TextChannel js_value field"
  po_member :: "GuildMember js_value field"
  po_skip :: "bool js_value field"
  po_message :: "message_value field"
  po_metadata :: "string option"
  po_position :: "number field"

record CustomPlugin =
  validate :: "string \<Rightarrow> error + bool"
  plugin_play :: "VoiceBasedChannel \<Rightarrow> string \<Rightarrow> PlayOptions \<Rightarrow> error + unit"

record collaborators =
  isURL :: "song_arg \<Rightarrow> bool"
  customPlugins :: "CustomPlugin list"
  ytsr :: "nat \<Rightarrow> ytsr_request \<Rightarrow> error + ytsr_item list"
  handler_searchSong :: "Message \<Rightarrow> string \<Rightarrow> error + SearchResult option"
  handler_resolve ::
    "song_arg option \<Rightarrow> GuildMember option \<Rightarrow> string option \<Rightarrow> error + resolved"
  handler_playPlaylist ::
    "VoiceBasedChannel \<Rightarrow> Playlist \<Rightarrow> TextChannel option \<Rightarrow> bool js_value \<Rightarrow> number
     \<Rightarrow> error + unit"
  handler_playSong ::
    "VoiceBasedChannel \<Rightarrow> Song \<Rightarrow> TextChannel option \<Rightarrow> bool js_value \<Rightarrow> number
     \<Rightarrow> error + unit"
  new_Playlist ::
    "resolved list \<Rightarrow> GuildMember option \<Rightarrow> string option \<Rightarrow> string option \<Rightarrow> error + Playlist"

text \<open>The truthiness of a value expected to be a boolean, and of one expected to be an object.\<close>

fun truthy_bool :: "bool js_value \<Rightarrow> bool" where
  "truthy_bool Falsy = False"
| "truthy_bool Wrong = True"
| "truthy_bool (Instance b) = b"

fun truthy :: "'a js_value \<Rightarrow> bool" where
  "truthy Falsy = False"
| "truthy Wrong = True"
| "truthy (Instance x) = True"

fun is_instance :: "'a js_value \<Rightarrow> bool" where
  "is_instance (Instance x) = True"
| "is_instance v = False"

text \<open>A value that has passed \<open>v && !isInstance(v)\<close>: the instance, or a falsy value.\<close>

fun instance_of :: "'a js_value \<Rightarrow> 'a option" where
  "instance_of (Instance x) = Some x"
| "instance_of v = None"

section \<open>DisTube.createCustomPlaylist\<close>

record CustomPlaylistOptions =
  cp_member :: "GuildMember js_value field"
  cp_properties :: "string option"
  cp_parallel :: "bool js_value field"
  cp_metadata :: "string option"

text \<open>The argument \<open>songs\<close>: an array, or a value that \<open>Array.isArray\<close> rejects.\<close>

datatype songs_arg = NotArray | Array "song_arg list"

text \<open>
  The predicate of \<open>songs.filter\<close>:
  \<open>song instanceof Song || isURL(song) || (typeof song !== "string" && song.type === VIDEO)\<close>.
\<close>

fun instanceof_Song :: "song_arg \<Rightarrow> bool" where
  "instanceof_Song (ASong s) = True"
| "instanceof_Song song = False"

fun typeof_string :: "song_arg \<Rightarrow> bool" where
  "typeof_string (Str s) = True"
| "typeof_string song = False"

fun type_is_VIDEO :: "song_arg \<Rightarrow> bool" where
  "type_is_VIDEO (AResult r) = (sr_type r = VIDEO)"
| "type_is_VIDEO song = False"

definition valid_song :: "collaborators \<Rightarrow> song_arg \<Rightarrow> bool" where
  "valid_song c song =
     (if instanceof_Song song then True
      else if isURL c song then True
      else if typeof_string song then False
      else type_is_VIDEO song)"

text \<open>\<open>promise.catch(() => undefined)\<close>: a failure of the resolver becomes \<open>undefined\<close>.\<close>

fun caught :: "error + 'a \<Rightarrow> 'a option" where
  "caught (Inl e) = None"
| "caught (Inr r) = Some r"

text \<open>\<open>.filter(s => Boolean(s))\<close> on resolved songs and \<open>undefined\<close>s.\<close>

fun filter_Boolean :: "'a option list \<Rightarrow> 'a list" where
  "filter_Boolean [] = []"
| "filter_Boolean (None # xs) = filter_Boolean xs"
| "filter_Boolean (Some r # xs) = r # filter_Boolean xs"

text \<open>
  The parallel branch: \<open>filteredSongs.map\<close> calls the resolver on each song, in the
  order of the array, and \<open>Promise.all\<close> keeps that order. The second component is
  the list of songs the resolver was called with, in order of call.
\<close>

definition resolve_parallel ::
  "(song_arg \<Rightarrow> error + resolved) \<Rightarrow> song_arg list \<Rightarrow> resolved option list \<times> song_arg list" where
  "resolve_parallel r filteredSongs = (map (\<lambda>song. caught (r song)) filteredSongs, filteredSongs)"

text \<open>
  The sequential branch: the loop \<open>for (const song of filteredSongs) resolved.push(...)\<close>,
  with the array \<open>resolved\<close> and the calls made so far as accumulators.
\<close>

fun resolve_sequential ::
  "(song_arg \<Rightarrow> error + resolved) \<Rightarrow> song_arg list \<Rightarrow> resolved option list \<Rightarrow> song_arg list
   \<Rightarrow> resolved option list \<times> song_arg list" where
  "resolve_sequential r [] resolved calls = (resolved, calls)"
| "resolve_sequential r (song # rest) resolved calls =
     resolve_sequential r rest (resolved @ [caught (r song)]) (calls @ [song])"

text \<open>
  The result of \<open>createCustomPlaylist\<close>, with the songs the resolver was called with.
\<close>

definition createCustomPlaylist ::
  "collaborators \<Rightarrow> songs_arg \<Rightarrow> CustomPlaylistOptions \<Rightarrow> (error + Playlist) \<times> song_arg list" where
  "createCustomPlaylist c songs options =
     (let member = spread Falsy (cp_member options);
          properties = cp_properties options;
          parallel = spread (Instance True) (cp_parallel options);
          metadata = cp_metadata options
      in case songs of
           NotArray \<Rightarrow> (Inl (DisTubeError INVALID_TYPE ''songs''), [])
         | Array songs \<Rightarrow>
             if songs = [] then (Inl (DisTubeError EMPTY_ARRAY ''songs''), [])
             else
               (let filteredSongs = filter (valid_song c) songs
                in if filteredSongs = [] then (Inl (DisTubeError NO_VALID_SONG []), [])
                   else if truthy member \<and> \<not> is_instance member
                   then (Inl (DisTubeError INVALID_TYPE ''options.member''), [])
                   else
                     (let r = (\<lambda>song. handler_resolve c (Some song) (instance_of member) metadata);
                          (resolved, calls) =
                            (if truthy_bool parallel
                             then resolve_parallel r filteredSongs
                             else resolve_sequential r filteredSongs [] [])
                      in (new_Playlist c (filter_Boolean resolved) (instance_of member)
                            properties metadata,
                          calls))))"

section \<open>DisTube.search\<close>

record SearchOptions =
  search_type :: "SearchResultType js_value field"
  limit :: "number js_value field"
  safeSearch :: "bool js_value field"
  retried :: "bool js_value field"

text \<open>
  The checks on \<open>opts = { type: VIDEO, limit: 10, safeSearch: false, ...options }\<close>, in
  the order of the source; when they pass, the options that \<open>ytsr\<close> is called with.
\<close>

definition search_opts :: "string \<Rightarrow> SearchOptions \<Rightarrow> error + ytsr_request" where
  "search_opts string options =
     (case spread (Instance VIDEO) (search_type options) of
        Instance t \<Rightarrow>
          (case spread (Instance (Num 10)) (limit options) of
             Instance l \<Rightarrow>
               if number_less l (Num 1) then Inl (DisTubeError NUMBER_COMPARE ''option.limit'')
               else
                 (case spread (Instance False) (safeSearch options) of
                    Instance s \<Rightarrow>
                      Inr \<lparr>rq_string = string, rq_type = t, rq_limit = l, rq_safeSearch = s,
                           rq_retried = retried options\<rparr>
                  | _ \<Rightarrow> Inl (DisTubeError INVALID_TYPE ''options.safeSearch''))
           | _ \<Rightarrow> Inl (DisTubeError INVALID_TYPE ''options.limit''))
      | _ \<Rightarrow> Inl (DisTubeError INVALID_TYPE ''options.type''))"

text \<open>
  The body of the \<open>try\<close>, from the outcome of the call of \<open>ytsr\<close>: each item becomes a
  video result when its type is \<open>"video"\<close>, a playlist result otherwise, and no item at
  all is the error \<open>NO_RESULT\<close>.
\<close>

definition to_result :: "ytsr_item \<Rightarrow> SearchResult" where
  "to_result i =
     \<lparr>sr_type = (if item_type i = ''video'' then VIDEO else PLAYLIST), sr_url = item_url i\<rparr>"

definition search_try :: "error + ytsr_item list \<Rightarrow> error + SearchResult list" where
  "search_try outcome =
     (case outcome of
        Inl e \<Rightarrow> Inl e
      | Inr items \<Rightarrow>
          (let results = map to_result items
           in if length results = 0 then Inl (DisTubeError NO_RESULT []) else Inr results))"

text \<open>
  \<open>search\<close>, with the calls of \<open>ytsr\<close> made so far. It returns the result, the calls
  made, and the options object, which the \<open>catch\<close> branch changes in place before it
  calls \<open>search\<close> again.
\<close>

function search ::
  "(nat \<Rightarrow> ytsr_request \<Rightarrow> error + ytsr_item list) \<Rightarrow> ytsr_request list \<Rightarrow> string \<Rightarrow> SearchOptions
   \<Rightarrow> (error + SearchResult list) \<times> ytsr_request list \<times> SearchOptions" where
  "search y calls string options =
     (case search_opts string options of
        Inl e \<Rightarrow> (Inl e, calls, options)
      | Inr opts \<Rightarrow>
          (case search_try (y (length calls) opts) of
             Inr results \<Rightarrow> (Inr results, calls @ [opts], options)
           | Inl e \<Rightarrow>
               if truthy_bool (spread Falsy (retried options))
               then (Inl e, calls @ [opts], options)
               else search y (calls @ [opts]) string (options\<lparr>retried := Present (Instance True)\<rparr>)))"
  by pat_completeness auto
termination
  by (relation "measure (\<lambda>(y, calls, string, options).
        if truthy_bool (spread Falsy (retried options)) then 0 else 1)") auto

declare search.simps [simp del]

section \<open>DisTube.play\<close>

text \<open>
  What \<open>play\<close> does to the world outside it, in order: the calls of the task queue of
  the guild's queue, of the custom plugins (by their index), of \<open>ytsr\<close> and of the
  handler.
\<close>

datatype event =
  TaskQueue_queuing snowflake bool
  | TaskQueue_resolve snowflake
  | Plugin_validate nat string
  | Plugin_play nat string
  | Ytsr ytsr_request
  | Handler_searchSong string
  | Handler_resolve "song_arg option"
  | Handler_playPlaylist Playlist "TextChannel option" "bool js_value" number
  | Handler_playSong Song "TextChannel option" "bool js_value" number

text \<open>
  The argument \<open>options\<close>: \<open>undefined\<close> (the default \<open>{}\<close> is taken), a value that
  \<open>isObject\<close> rejects, or an object.
\<close>

datatype options_arg = OptionsUndefined | OptionsNotObject | OptionsObject PlayOptions

definition no_options :: PlayOptions where
  "no_options = \<lparr>po_textChannel = Absent, po_member = Absent, po_skip = Absent,
                  po_message = Absent, po_metadata = None, po_position = Absent\<rparr>"

fun default_options :: "options_arg \<Rightarrow> PlayOptions option" where
  "default_options OptionsUndefined = Some no_options"
| "default_options OptionsNotObject = None"
| "default_options (OptionsObject options) = Some options"

text \<open>\<open>options?.message?.channel\<close>, and the checks on the message.\<close>

fun message_channel :: "message_value \<Rightarrow> TextChannel js_value" where
  "message_channel NoMessage = Falsy"
| "message_channel (NotMessage c) = c"
| "message_channel (AMessage m) = channel m"

fun message_truthy :: "message_value \<Rightarrow> bool" where
  "message_truthy NoMessage = False"
| "message_truthy m = True"

fun isMessageInstance :: "message_value \<Rightarrow> bool" where
  "isMessageInstance (AMessage m) = True"
| "isMessageInstance m = False"

fun message_of :: "message_value \<Rightarrow> Message option" where
  "message_of (AMessage m) = Some m"
| "message_of m = None"

text \<open>\<open>Number(options.position)\<close>; \<open>Number(undefined)\<close> is \<open>NaN\<close>.\<close>

fun Number :: "number field \<Rightarrow> number" where
  "Number Absent = NaN"
| "Number (Present n) = n"


text \<open>
  The loop over the custom plugins, from the plugin of index \<open>i\<close> on: the first plugin
  that validates the string plays it, and \<open>play\<close> returns; a \<open>validate\<close> or a
  \<open>play\<close> that throws ends the loop with the error.
\<close>

datatype plugin_outcome = NotHandled | Handled | PluginThrew error

fun run_customPlugins ::
  "CustomPlugin list \<Rightarrow> nat \<Rightarrow> VoiceBasedChannel \<Rightarrow> string \<Rightarrow> PlayOptions
   \<Rightarrow> plugin_outcome \<times> event list" where
  "run_customPlugins [] i vc song options = (NotHandled, [])"
| "run_customPlugins (plugin # plugins) i vc song options =
     (case validate plugin song of
        Inl e \<Rightarrow> (PluginThrew e, [Plugin_validate i song])
      | Inr True \<Rightarrow>
          (case plugin_play plugin vc song options of
             Inl e \<Rightarrow> (PluginThrew e, [Plugin_validate i song, Plugin_play i song])
           | Inr u \<Rightarrow> (Handled, [Plugin_validate i song, Plugin_play i song]))
      | Inr False \<Rightarrow>
          (case run_customPlugins plugins (Suc i) vc song options of
             (outcome, events) \<Rightarrow> (outcome, Plugin_validate i song # events)))"

text \<open>
  \<open>typeof song === "string" ? song : song.url\<close>, for the message of a \<open>PlayError\<close>;
  \<open>None\<close> when \<open>song\<close> is \<open>undefined\<close> and reading \<open>song.url\<close> throws.
\<close>

fun song_label :: "song_arg \<Rightarrow> string" where
  "song_label (Str s) = s"
| "song_label (ASong s) = url s"
| "song_label (AResult r) = sr_url r"
| "song_label (APlaylist p) = pl_url p"

text \<open>
  The end of the \<open>try\<close> block, from \<open>song = await this.handler.resolve(...)\<close> on. A
  failure comes with the label of the value that \<open>song\<close> holds when it is thrown.
\<close>

definition play_resolve ::
  "collaborators \<Rightarrow> VoiceBasedChannel \<Rightarrow> song_arg option \<Rightarrow> GuildMember option \<Rightarrow> string option
   \<Rightarrow> TextChannel option \<Rightarrow> bool js_value \<Rightarrow> number
   \<Rightarrow> ((error \<times> string option) + unit) \<times> event list" where
  "play_resolve c vc song member metadata textChannel skip_value position =
     (case handler_resolve c song member metadata of
        Inl e \<Rightarrow> (Inl (e, map_option song_label song), [Handler_resolve song])
      | Inr (RPlaylist p) \<Rightarrow>
          (case handler_playPlaylist c vc p textChannel skip_value position of
             Inl e \<Rightarrow> (Inl (e, Some (pl_url p)),
                       [Handler_resolve song, Handler_playPlaylist p textChannel skip_value position])
           | Inr u \<Rightarrow> (Inr (),
                       [Handler_resolve song, Handler_playPlaylist p textChannel skip_value position]))
      | Inr (RSong s) \<Rightarrow>
          (case handler_playSong c vc s textChannel skip_value position of
             Inl e \<Rightarrow> (Inl (e, Some (url s)),
                       [Handler_resolve song, Handler_playSong s textChannel skip_value position])
           | Inr u \<Rightarrow> (Inr (),
                       [Handler_resolve song, Handler_playSong s textChannel skip_value position])))"

text \<open>\<open>results[0]\<close>: the first element, or \<open>undefined\<close> for an empty array.\<close>

fun first_result :: "SearchResult list \<Rightarrow> song_arg option" where
  "first_result [] = None"
| "first_result (r # rs) = Some (AResult r)"

text \<open>
  The search step of the \<open>try\<close> block, for a string that is not a URL: without a
  message the first result of \<open>search(song, { limit: 1 })\<close>, with one the result of
  \<open>handler.searchSong\<close>, and \<open>play\<close> returns when that is \<open>null\<close>.
\<close>

definition limit_1 :: SearchOptions where
  "limit_1 = \<lparr>search_type = Absent, limit = Present (Instance (Num 1)), safeSearch = Absent,
               retried = Absent\<rparr>"

datatype search_step = Found "song_arg option" | Returned | SearchThrew error

definition play_search ::
  "collaborators \<Rightarrow> Message option \<Rightarrow> string \<Rightarrow> search_step \<times> event list" where
  "play_search c message song =
     (case message of
        None \<Rightarrow>
          (case search (ytsr c) [] song limit_1 of
             (Inl e, calls, options) \<Rightarrow> (SearchThrew e, map Ytsr calls)
           | (Inr results, calls, options) \<Rightarrow> (Found (first_result results), map Ytsr calls))
      | Some m \<Rightarrow>
          (case handler_searchSong c m song of
             Inl e \<Rightarrow> (SearchThrew e, [Handler_searchSong song])
           | Inr None \<Rightarrow> (Returned, [Handler_searchSong song])
           | Inr (Some result) \<Rightarrow> (Found (Some (AResult result)), [Handler_searchSong song])))"

text \<open>The \<open>try\<close> block of \<open>play\<close>.\<close>

definition play_try ::
  "collaborators \<Rightarrow> VoiceBasedChannel \<Rightarrow> song_arg \<Rightarrow> PlayOptions \<Rightarrow> Message option
   \<Rightarrow> GuildMember option \<Rightarrow> TextChannel option \<Rightarrow> bool js_value \<Rightarrow> number
   \<Rightarrow> ((error \<times> string option) + unit) \<times> event list" where
  "play_try c vc song options message member textChannel skip_value position =
     (case (case song of
              Str s \<Rightarrow> run_customPlugins (customPlugins c) 0 vc s options
            | _ \<Rightarrow> (NotHandled, [])) of
        (PluginThrew e, events) \<Rightarrow> (Inl (e, Some (song_label song)), events)
      | (Handled, events) \<Rightarrow> (Inr (), events)
      | (NotHandled, events) \<Rightarrow>
          (case (case song of
                   Str s \<Rightarrow>
                     if \<not> isURL c song then play_search c message s
                     else (Found (Some song), [])
                 | _ \<Rightarrow> (Found (Some song), [])) of
             (SearchThrew e, events') \<Rightarrow> (Inl (e, Some (song_label song)), events @ events')
           | (Returned, events') \<Rightarrow> (Inr (), events @ events')
           | (Found song', events') \<Rightarrow>
               (case play_resolve c vc song' member (po_metadata options) textChannel
                       skip_value position of
                  (result, events'') \<Rightarrow> (result, events @ events' @ events''))))"

text \<open>
  The \<open>catch\<close> block: an error that is not a \<open>DisTubeError\<close> gets the name
  \<open>PlayError\<close> and its message prefixed with the label and a line feed; when an
  assignment throws, the error is thrown as it stands by then.
\<close>

fun play_catch :: "error \<Rightarrow> string option \<Rightarrow> error" where
  "play_catch (DisTubeError code a) label = DisTubeError code a"
| "play_catch (Error name message) (Some label) =
     Error ''PlayError'' (label @ [CHR 0x0A] @ message)"
| "play_catch (Error name message) None = Error ''PlayError'' message"
| "play_catch ThrownValue label = ThrownValue"

text \<open>
  The constants that \<open>play\<close> takes out of
  \<open>{ member: voiceChannel.guild.members.me ?? undefined,
     textChannel: options?.message?.channel, skip: false, ...options }\<close>.
\<close>

definition play_member :: "VoiceBasedChannel \<Rightarrow> PlayOptions \<Rightarrow> GuildMember js_value" where
  "play_member vc options =
     spread (case me vc of None \<Rightarrow> Falsy | Some m \<Rightarrow> Instance m) (po_member options)"

definition play_textChannel :: "PlayOptions \<Rightarrow> TextChannel js_value" where
  "play_textChannel options =
     spread (message_channel (spread NoMessage (po_message options))) (po_textChannel options)"

definition play_skip :: "PlayOptions \<Rightarrow> bool js_value" where
  "play_skip options = spread (Instance False) (po_skip options)"

definition play_message :: "PlayOptions \<Rightarrow> message_value" where
  "play_message options = spread NoMessage (po_message options)"

text \<open>\<open>const position = Number(options.position) || (skip ? 1 : 0)\<close>.\<close>

definition play_position :: "PlayOptions \<Rightarrow> number" where
  "play_position options =
     (if number_truthy (Number (po_position options)) then Number (po_position options)
      else if truthy_bool (play_skip options) then Num 1 else Num 0)"

text \<open>
  The three checks that follow, on the message, the text channel and the member: the
  error of the first that fails, if any.
\<close>

definition play_check :: "VoiceBasedChannel \<Rightarrow> PlayOptions \<Rightarrow> error option" where
  "play_check vc options =
     (if message_truthy (play_message options) \<and> \<not> isMessageInstance (play_message options)
      then Some (DisTubeError INVALID_TYPE ''options.message'')
      else if truthy (play_textChannel options) \<and> \<not> is_instance (play_textChannel options)
      then Some (DisTubeError INVALID_TYPE ''options.textChannel'')
      else if truthy (play_member vc options) \<and> \<not> is_instance (play_member vc options)
      then Some (DisTubeError INVALID_TYPE ''options.member'')
      else None)"

text \<open>
  \<open>const queuing = queue && !queue._taskQueue.hasResolveTask\<close>, then
  \<open>if (queuing) await queue?._taskQueue.queuing(true)\<close> before the \<open>try\<close> and
  \<open>if (queuing) queue?._taskQueue.resolve()\<close> in its \<open>finally\<close>.
\<close>

definition play_queuing :: "Queue option \<Rightarrow> bool" where
  "play_queuing queue =
     (case queue of None \<Rightarrow> False | Some q \<Rightarrow> \<not> hasResolveTask (taskQueue q))"

definition play_before :: "Queue option \<Rightarrow> event list" where
  "play_before queue =
     (if play_queuing queue
      then (case queue of Some q \<Rightarrow> [TaskQueue_queuing (queue_id q) True] | None \<Rightarrow> [])
      else [])"

definition play_finally :: "Queue option \<Rightarrow> event list" where
  "play_finally queue =
     (if play_queuing queue
      then (case queue of Some q \<Rightarrow> [TaskQueue_resolve (queue_id q)] | None \<Rightarrow> [])
      else [])"

text \<open>\<open>play\<close>: what it returns or throws, and what it did.\<close>

definition play ::
  "collaborators \<Rightarrow> DisTube \<Rightarrow> VoiceBasedChannel js_value \<Rightarrow> song_arg \<Rightarrow> options_arg
   \<Rightarrow> (error + unit) \<times> event list" where
  "play c d voiceChannel song options_arg =
     (case voiceChannel of
        Instance vc \<Rightarrow>
          (case default_options options_arg of
             None \<Rightarrow> (Inl (DisTubeError INVALID_TYPE ''options''), [])
           | Some options \<Rightarrow>
               (case play_check vc options of
                  Some e \<Rightarrow> (Inl e, [])
                | None \<Rightarrow>
                    (let queue = getQueue d (OfVoiceBasedChannel vc)
                     in case play_try c vc song options (message_of (play_message options))
                               (instance_of (play_member vc options))
                               (instance_of (play_textChannel options))
                               (play_skip options) (play_position options) of
                          (Inr u, events) \<Rightarrow>
                            (Inr (), play_before queue @ events @ play_finally queue)
                        | (Inl (e, label), events) \<Rightarrow>
                            (Inl (play_catch e label),
                             play_before queue @ events @ play_finally queue))))
      | _ \<Rightarrow> (Inl (DisTubeError INVALID_TYPE ''voiceChannel''), []))"

text \<open>The events that are calls of a task queue.\<close>

fun is_TaskQueue_event :: "event \<Rightarrow> bool" where
  "is_TaskQueue_event (TaskQueue_queuing k b) = True"
| "is_TaskQueue_event (TaskQueue_resolve k) = True"
| "is_TaskQueue_event e = False"

text \<open>
  What a list of events does to the task queue of the queue \<open>k\<close>, each call of that
  task queue doing what the spec gives for it.
\<close>

fun TaskQueue_call :: "snowflake \<Rightarrow> event \<Rightarrow> TaskQueue \<Rightarrow> TaskQueue" where
  "TaskQueue_call k (TaskQueue_queuing k' isResolveTask) tq =
     (if k' = k then queuing isResolveTask tq else tq)"
| "TaskQueue_call k (TaskQueue_resolve k') tq = (if k' = k then resolve tq else tq)"
| "TaskQueue_call k e tq = tq"

definition TaskQueue_after :: "snowflake \<Rightarrow> event list \<Rightarrow> TaskQueue \<Rightarrow> TaskQueue" where
  "TaskQueue_after k events tq = fold (TaskQueue_call k) events tq"

text \<open>The position that a call of the handler was given, for the events that are one.\<close>

fun position_of :: "event \<Rightarrow> number option" where
  "position_of (Handler_playPlaylist p textChannel skip_value position) = Some position"
| "position_of (Handler_playSong s textChannel skip_value position) = Some position"
| "position_of e = None"

section \<open>Kinds of error\<close>

text \<open>
  The spec's taxonomy names kinds of error; the code distinguishes errors by code. The
  invalid-argument kind is a \<open>DisTubeError\<close> with code \<open>INVALID_TYPE\<close> or
  \<open>NUMBER_COMPARE\<close>, the not-found kind the code \<open>NO_QUEUE\<close>.
\<close>

fun invalid_argument :: "error \<Rightarrow> bool" where
  "invalid_argument (DisTubeError INVALID_TYPE a) = True"
| "invalid_argument (DisTubeError NUMBER_COMPARE a) = True"
| "invalid_argument e = False"

section \<open>Concrete states used to run the definitions\<close>

definition queue0 :: Queue where
  "queue0 = \<lparr>queue_id = ''g1'', volume = Num 100, repeatMode = DISABLED, autoplay = False,
             voice = \<lparr>stream_volume = Num 100\<rparr>, taskQueue = []\<rparr>"

definition distube0 :: DisTube where
  "distube0 = \<lparr>queues = [''g1'' \<mapsto> queue0]\<rparr>"

text \<open>A queue on which a resolve-class task of an earlier \<open>play\<close> is running.\<close>

definition queue_resolving :: Queue where
  "queue_resolving = queue0\<lparr>taskQueue := [True]\<rparr>"

definition distube_resolving :: DisTube where
  "distube_resolving = \<lparr>queues = [''g1'' \<mapsto> queue_resolving]\<rparr>"

definition vc1 :: VoiceBasedChannel where
  "vc1 = \<lparr>guildId = ''g1'', me = Some \<lparr>member_id = ''bot''\<rparr>\<rparr>"

text \<open>
  Collaborators to run the definitions with: strings that start with \<open>http\<close> are URLs,
  there is no custom plugin, the search finds one video, the interactive search finds
  nothing, the resolver makes a song of what it is given except of the URL
  \<open>http://gone\<close>, and the handler plays whatever it is asked to.
\<close>

fun isURL0 :: "song_arg \<Rightarrow> bool" where
  "isURL0 (Str s) = (take 4 s = ''http'')"
| "isURL0 song = False"

fun resolver0 :: "song_arg option \<Rightarrow> GuildMember option \<Rightarrow> string option \<Rightarrow> error + resolved" where
  "resolver0 (Some (Str s)) m md =
     (if s = ''http://gone'' then Inl (Error ''Error'' ''unavailable'') else Inr (RSong \<lparr>url = s\<rparr>))"
| "resolver0 (Some (ASong s)) m md = Inr (RSong s)"
| "resolver0 (Some (AResult r)) m md = Inr (RSong \<lparr>url = sr_url r\<rparr>)"
| "resolver0 (Some (APlaylist p)) m md = Inr (RPlaylist p)"
| "resolver0 None m md = Inl (DisTubeError (OTHER_CODE ''CANNOT_RESOLVE_SONG'') [])"

fun songs_of :: "resolved list \<Rightarrow> Song list" where
  "songs_of [] = []"
| "songs_of (RSong s # rs) = s # songs_of rs"
| "songs_of (RPlaylist p # rs) = pl_songs p @ songs_of rs"

definition ytsr_one :: "nat \<Rightarrow> ytsr_request \<Rightarrow> error + ytsr_item list" where
  "ytsr_one n rq = Inr [\<lparr>item_type = ''video'', item_url = ''http://v''\<rparr>]"

definition collab0 :: collaborators where
  "collab0 =
     \<lparr>isURL = isURL0,
      customPlugins = [],
      ytsr = ytsr_one,
      handler_searchSong = (\<lambda>m s. Inr None),
      handler_resolve = resolver0,
      handler_playPlaylist = (\<lambda>vc p tc sk pos. Inr ()),
      handler_playSong = (\<lambda>vc s tc sk pos. Inr ()),
      new_Playlist = (\<lambda>rs m props md. Inr \<lparr>pl_songs = songs_of rs, pl_url = []\<rparr>)\<rparr>"

text \<open>The same with a resolver that always fails.\<close>

definition collab_down :: collaborators where
  "collab_down =
     collab0\<lparr>handler_resolve := (\<lambda>song m md. Inl (Error ''Error'' ''unavailable''))\<rparr>"

text \<open>A search library that is down, one that finds nothing at first, and search options.\<close>

definition ytsr_down :: "nat \<Rightarrow> ytsr_request \<Rightarrow> error + ytsr_item list" where
  "ytsr_down n rq = Inl (Error ''Error'' ''network'')"

definition ytsr_second :: "nat \<Rightarrow> ytsr_request \<Rightarrow> error + ytsr_item list" where
  "ytsr_second n rq =
     (if n = 0 then Inr [] else Inr [\<lparr>item_type = ''video'', item_url = ''http://v''\<rparr>])"

definition options_plain :: SearchOptions where
  "options_plain = \<lparr>search_type = Absent, limit = Absent, safeSearch = Absent, retried = Absent\<rparr>"

definition options_retried :: SearchOptions where
  "options_retried = options_plain\<lparr>retried := Present (Instance True)\<rparr>"

definition request0 :: "bool js_value field \<Rightarrow> ytsr_request" where
  "request0 r = \<lparr>rq_string = ''q'', rq_type = VIDEO, rq_limit = Num 10, rq_safeSearch = False,
                 rq_retried = r\<rparr>"

text \<open>Options of \<open>play\<close> and of \<open>createCustomPlaylist\<close>, and songs.\<close>

definition with_message :: PlayOptions where
  "with_message =
     no_options\<lparr>po_message := Present (AMessage \<lparr>channel = Instance \<lparr>channel_id = ''c1''\<rparr>\<rparr>)\<rparr>"

definition wrong_member :: PlayOptions where
  "wrong_member = no_options\<lparr>po_member := Present Wrong\<rparr>"

definition skip_at_0 :: PlayOptions where
  "skip_at_0 = no_options\<lparr>po_skip := Present (Instance True), po_position := Present (Num 0)\<rparr>"

definition at_3 :: PlayOptions where
  "at_3 = no_options\<lparr>po_position := Present (Num 3)\<rparr>"

definition cp_options0 :: CustomPlaylistOptions where
  "cp_options0 = \<lparr>cp_member = Absent, cp_properties = None, cp_parallel = Absent,
                   cp_metadata = None\<rparr>"

definition no_valid_songs :: "song_arg list" where
  "no_valid_songs = [Str ''some words'', AResult \<lparr>sr_type = PLAYLIST, sr_url = ''http://p''\<rparr>]"

definition three_songs :: "song_arg list" where
  "three_songs = [Str ''http://a'', Str ''some words'', Str ''http://gone'',
                  AResult \<lparr>sr_type = VIDEO, sr_url = ''http://v''\<rparr>]"

section \<open>Looking a queue up\<close>

lemma getQueue_private_none:
  "queues d (resolveGuildId guild) = None \<Longrightarrow>
   getQueue_private d guild = Inl (DisTubeError NO_QUEUE [])"
  by (simp add: getQueue_private_def getQueue_def QueueManager_get_def)

lemma getQueue_private_some:
  "queues d (resolveGuildId guild) = Some q \<Longrightarrow> getQueue_private d guild = Inr q"
  by (simp add: getQueue_private_def getQueue_def QueueManager_get_def)

lemma put_queue_same:
  "queues d (resolveGuildId guild) = Some q \<Longrightarrow> put_queue d guild q = d"
  by (simp add: put_queue_def map_upd_triv)

lemma put_queue_lookup:
  "queues (put_queue d guild q) (resolveGuildId guild) = Some q"
  by (simp add: put_queue_def)

lemma put_queue_twice:
  "put_queue (put_queue d guild q) guild q' = put_queue d guild q'"
  by (simp add: put_queue_def)


section \<open>Volume\<close>

text \<open>
  C6. For a guild with a registered queue, \<open>setVolume\<close> accepts a percentage only when
  it is greater than 0: with 0 or a negative percentage it fails with an
  invalid-argument error and the state, hence the volume, is as before; with 150 it
  succeeds, and both the queue's volume and the volume of its stream are 150 in the
  queue returned and in the queue registered for the guild afterwards.
\<close>

theorem setVolume_validates_percent:
  assumes "queues d (resolveGuildId guild) = Some q"
  shows "(r \<le> 0 \<longrightarrow>
            (\<exists>e. setVolume d guild (Num r) = (Inl e, d) \<and> invalid_argument e))
         \<and> (\<exists>q'. setVolume d guild (Num 150) = (Inr q', put_queue d guild q')
                \<and> volume q' = Num 150 \<and> stream_volume (voice q') = Num 150
                \<and> queues (snd (setVolume d guild (Num 150))) (resolveGuildId guild) = Some q')"
  using assms
  by (simp add: setVolume_def getQueue_private_some Queue_setVolume_def put_queue_lookup)

theorem setVolume_validates_percent_witness:
  "(\<exists>e. setVolume distube0 (OfSnowflake ''g1'') (Num 0) = (Inl e, distube0) \<and> invalid_argument e)
   \<and> (\<exists>e. setVolume distube0 (OfSnowflake ''g1'') (Num (- 20)) = (Inl e, distube0)
          \<and> invalid_argument e)
   \<and> map_option volume
        (queues (snd (setVolume distube0 (OfSnowflake ''g1'') (Num 150))) ''g1'') = Some (Num 150)"
proof -
  have q: "queues distube0 (resolveGuildId (OfSnowflake ''g1'')) = Some queue0"
    by (simp add: distube0_def)
  from setVolume_validates_percent [OF q, of 0] setVolume_validates_percent [OF q, of "- 20"]
  show ?thesis by auto
qed

section \<open>Repeat mode\<close>

text \<open>
  C7. For a guild with a registered queue, whatever its repeat mode, \<open>setRepeatMode\<close>
  with no mode moves the queue to the next mode of the cycle
  \<open>DISABLED \<rightarrow> SONG \<rightarrow> QUEUE \<rightarrow> DISABLED\<close> and returns the value of that mode; the third
  of three such calls in a row returns the mode the queue started with and leaves the
  state as it was before the first.
\<close>

theorem setRepeatMode_cycles:
  assumes "queues d (resolveGuildId guild) = Some q"
  shows "setRepeatMode d guild None =
           (Inr (RepeatMode_value (cycle (repeatMode q))),
            put_queue d guild (q\<lparr>repeatMode := cycle (repeatMode q)\<rparr>))
         \<and> cycle DISABLED = SONG \<and> cycle SONG = QUEUE \<and> cycle QUEUE = DISABLED
         \<and> setRepeatMode (snd (setRepeatMode (snd (setRepeatMode d guild None)) guild None))
             guild None
           = (Inr (RepeatMode_value (repeatMode q)), d)"
proof -
  have step: "setRepeatMode d' guild None =
                (Inr (RepeatMode_value (cycle (repeatMode q'))),
                 put_queue d' guild (q'\<lparr>repeatMode := cycle (repeatMode q')\<rparr>))"
    if "queues d' (resolveGuildId guild) = Some q'" for d' q'
    using that
    by (simp add: setRepeatMode_def getQueue_private_some Queue_setRepeatMode_def Let_def)
  have cyc3: "cycle (cycle (cycle m)) = m" for m
    by (cases m) simp_all
  let ?q1 = "q\<lparr>repeatMode := cycle (repeatMode q)\<rparr>"
  let ?q2 = "?q1\<lparr>repeatMode := cycle (repeatMode ?q1)\<rparr>"
  let ?d1 = "put_queue d guild ?q1"
  let ?d2 = "put_queue ?d1 guild ?q2"
  have s1: "setRepeatMode d guild None = (Inr (RepeatMode_value (cycle (repeatMode q))), ?d1)"
    by (rule step [OF assms])
  have s2: "setRepeatMode ?d1 guild None = (Inr (RepeatMode_value (cycle (repeatMode ?q1))), ?d2)"
    by (rule step [OF put_queue_lookup])
  have s3: "setRepeatMode ?d2 guild None =
              (Inr (RepeatMode_value (cycle (repeatMode ?q2))),
               put_queue ?d2 guild (?q2\<lparr>repeatMode := cycle (repeatMode ?q2)\<rparr>))"
    by (rule step [OF put_queue_lookup])
  have q3: "?q2\<lparr>repeatMode := cycle (repeatMode ?q2)\<rparr> = q"
    by (simp add: cyc3)
  have d3: "put_queue ?d2 guild q = d"
    by (simp add: put_queue_twice put_queue_same [OF assms])
  have s3': "setRepeatMode ?d2 guild None = (Inr (RepeatMode_value (repeatMode q)), d)"
    using s3 unfolding q3 d3 by (simp add: cyc3)
  show ?thesis
    unfolding s1 snd_conv s2 s3' by simp
qed

theorem setRepeatMode_cycles_witness:
  "queues distube0 (resolveGuildId (OfSnowflake ''g1'')) = Some queue0
   \<and> setRepeatMode distube0 (OfSnowflake ''g1'') None =
       (Inr (RepeatMode_value (cycle (repeatMode queue0))),
        put_queue distube0 (OfSnowflake ''g1'') (queue0\<lparr>repeatMode := cycle (repeatMode queue0)\<rparr>))
   \<and> setRepeatMode (snd (setRepeatMode (snd (setRepeatMode distube0 (OfSnowflake ''g1'') None))
        (OfSnowflake ''g1'') None)) (OfSnowflake ''g1'') None
     = (Inr (RepeatMode_value (repeatMode queue0)), distube0)"
proof -
  have q: "queues distube0 (resolveGuildId (OfSnowflake ''g1'')) = Some queue0"
    by (simp add: distube0_def)
  from q setRepeatMode_cycles [OF q] show ?thesis
    by blast
qed

section \<open>Operations on a guild without a queue\<close>

text \<open>
  C8. When the guild-identifying input resolves to a guild with no registered queue,
  \<open>getQueue\<close> returns \<open>undefined\<close> (here \<open>None\<close>: a value, not an error), and each
  of \<open>pause\<close>, \<open>resume\<close>, \<open>stop\<close>, \<open>setVolume\<close>, \<open>skip\<close>, \<open>previous\<close>, \<open>shuffle\<close>, \<open>jump\<close>,
  \<open>setRepeatMode\<close>, \<open>toggleAutoplay\<close>, \<open>addRelatedSong\<close> and \<open>seek\<close> throws the error
  \<open>NO_QUEUE\<close>, whatever the method of the queue would have done and whatever the other
  arguments are; the state is as before.
\<close>

theorem no_queue_operations:
  assumes "queues d (resolveGuildId guild) = None"
  shows "getQueue d guild = None
         \<and> pause f1 d guild = Inl (DisTubeError NO_QUEUE [])
         \<and> resume f2 d guild = Inl (DisTubeError NO_QUEUE [])
         \<and> stop f3 d guild = Inl (DisTubeError NO_QUEUE [])
         \<and> setVolume d guild percent = (Inl (DisTubeError NO_QUEUE []), d)
         \<and> skip f4 d guild = Inl (DisTubeError NO_QUEUE [])
         \<and> previous f5 d guild = Inl (DisTubeError NO_QUEUE [])
         \<and> shuffle f6 d guild = Inl (DisTubeError NO_QUEUE [])
         \<and> jump f7 d guild num = Inl (DisTubeError NO_QUEUE [])
         \<and> setRepeatMode d guild mode = (Inl (DisTubeError NO_QUEUE []), d)
         \<and> toggleAutoplay d guild = (Inl (DisTubeError NO_QUEUE []), d)
         \<and> addRelatedSong f8 d guild = Inl (DisTubeError NO_QUEUE [])
         \<and> seek f9 d guild time = Inl (DisTubeError NO_QUEUE [])"
proof -
  have g: "getQueue d guild = None"
    using assms by (simp add: getQueue_def QueueManager_get_def)
  have p: "getQueue_private d guild = Inl (DisTubeError NO_QUEUE [])"
    by (rule getQueue_private_none [OF assms])
  show ?thesis
    by (simp add: g p pause_def resume_def stop_def setVolume_def skip_def previous_def
        shuffle_def jump_def setRepeatMode_def toggleAutoplay_def addRelatedSong_def seek_def)
qed

theorem no_queue_operations_witness:
  "queues distube0 (resolveGuildId (OfSnowflake ''g2'')) = None
   \<and> getQueue distube0 (OfSnowflake ''g2'') = None
   \<and> pause volume distube0 (OfSnowflake ''g2'') = Inl (DisTubeError NO_QUEUE [])
   \<and> setVolume distube0 (OfSnowflake ''g2'') (Num 150) = (Inl (DisTubeError NO_QUEUE []), distube0)
   \<and> toggleAutoplay distube0 (OfSnowflake ''g2'') = (Inl (DisTubeError NO_QUEUE []), distube0)"
proof -
  have q: "queues distube0 (resolveGuildId (OfSnowflake ''g2'')) = None"
    by (simp add: distube0_def)
  from no_queue_operations [OF q, where ?f1.0 = volume and percent = "Num 150"]
  have "getQueue distube0 (OfSnowflake ''g2'') = None"
    and "pause volume distube0 (OfSnowflake ''g2'') = Inl (DisTubeError NO_QUEUE [])"
    and "setVolume distube0 (OfSnowflake ''g2'') (Num 150)
           = (Inl (DisTubeError NO_QUEUE []), distube0)"
    and "toggleAutoplay distube0 (OfSnowflake ''g2'') = (Inl (DisTubeError NO_QUEUE []), distube0)"
    by blast+
  with q show ?thesis by blast
qed

section \<open>createCustomPlaylist: the two ways of resolving\<close>

lemma resolve_sequential_acc:
  "resolve_sequential r xs acc calls = (acc @ map (\<lambda>song. caught (r song)) xs, calls @ xs)"
  by (induction xs arbitrary: acc calls) simp_all

lemma resolve_sequential_parallel:
  "resolve_sequential r xs [] [] = resolve_parallel r xs"
  by (simp add: resolve_sequential_acc resolve_parallel_def)

lemma filter_Boolean_map_filter:
  "filter_Boolean (map f xs) = List.map_filter f xs"
proof (induction xs)
  case Nil
  show ?case by (simp add: List.map_filter_simps)
next
  case (Cons x xs)
  then show ?case by (cases "f x") (simp_all add: List.map_filter_simps)
qed

lemma valid_song_iff:
  "valid_song c song \<longleftrightarrow> instanceof_Song song \<or> isURL c song \<or> type_is_VIDEO song"
  by (cases song) (simp_all add: valid_song_def)

lemma createCustomPlaylist_any_parallel:
  "createCustomPlaylist c xs (options\<lparr>cp_parallel := p1\<rparr>)
     = createCustomPlaylist c xs (options\<lparr>cp_parallel := p2\<rparr>)"
  by (cases xs) (auto simp add: createCustomPlaylist_def Let_def resolve_sequential_parallel)

lemma createCustomPlaylist_result:
  assumes "filter (valid_song c) xs \<noteq> []"
    and "\<not> (truthy (spread Falsy (cp_member options)) \<and> \<not> is_instance (spread Falsy (cp_member options)))"
  shows "createCustomPlaylist c (Array xs) options =
     (new_Playlist c
        (List.map_filter
           (\<lambda>song. caught (handler_resolve c (Some song)
                      (instance_of (spread Falsy (cp_member options))) (cp_metadata options)))
           (filter (valid_song c) xs))
        (instance_of (spread Falsy (cp_member options))) (cp_properties options) (cp_metadata options),
      filter (valid_song c) xs)"
proof -
  from assms(1) have ne: "xs \<noteq> []" by auto
  show ?thesis
    using assms ne
    by (simp add: createCustomPlaylist_def Let_def resolve_sequential_parallel
        resolve_parallel_def filter_Boolean_map_filter)
qed


section \<open>search: one retry\<close>

lemma search_opts_retried:
  "search_opts string options = Inr opts \<Longrightarrow>
   search_opts string (options\<lparr>retried := r\<rparr>) = Inr (opts\<lparr>rq_retried := r\<rparr>)"
  by (auto simp add: search_opts_def split: js_value.splits if_splits)

lemma search_try_nonempty: "search_try outcome = Inr rs \<Longrightarrow> rs \<noteq> []"
  by (auto simp add: search_try_def Let_def split: sum.splits if_splits)

lemma search_invalid:
  "search_opts string options = Inl e \<Longrightarrow> search y calls string options = (Inl e, calls, options)"
  by (simp add: search.simps)

lemma search_success:
  "search_opts string options = Inr opts \<Longrightarrow> search_try (y (length calls) opts) = Inr rs \<Longrightarrow>
   search y calls string options = (Inr rs, calls @ [opts], options)"
  by (simp add: search.simps)

lemma search_no_retry:
  "search_opts string options = Inr opts \<Longrightarrow> search_try (y (length calls) opts) = Inl e \<Longrightarrow>
   truthy_bool (spread Falsy (retried options)) \<Longrightarrow>
   search y calls string options = (Inl e, calls @ [opts], options)"
  by (simp add: search.simps)

lemma search_once:
  "search_opts string options = Inr opts \<Longrightarrow> truthy_bool (spread Falsy (retried options)) \<Longrightarrow>
   search y calls string options = (search_try (y (length calls) opts), calls @ [opts], options)"
  by (cases "search_try (y (length calls) opts)") (simp_all add: search.simps)

lemma search_retry:
  assumes "search_opts string options = Inr opts"
    and "search_try (y (length calls) opts) = Inl e"
    and "\<not> truthy_bool (spread Falsy (retried options))"
  shows "search y calls string options =
           (search_try (y (Suc (length calls)) (opts\<lparr>rq_retried := Present (Instance True)\<rparr>)),
            calls @ [opts, opts\<lparr>rq_retried := Present (Instance True)\<rparr>],
            options\<lparr>retried := Present (Instance True)\<rparr>)"
proof -
  let ?o = "options\<lparr>retried := Present (Instance True)\<rparr>"
  have "search y calls string options = search y (calls @ [opts]) string ?o"
    using assms by (simp add: search.simps)
  also have "\<dots> = (search_try (y (length (calls @ [opts])) (opts\<lparr>rq_retried := Present (Instance True)\<rparr>)),
       (calls @ [opts]) @ [opts\<lparr>rq_retried := Present (Instance True)\<rparr>], ?o)"
    by (rule search_once [OF search_opts_retried [OF assms(1)]]) simp
  finally show ?thesis by simp
qed


section \<open>play: the calls of the task queue\<close>

lemma run_customPlugins_events:
  "run_customPlugins ps i vc s options = (out, evs) \<Longrightarrow> filter is_TaskQueue_event evs = []"
proof (induction ps arbitrary: i out evs)
  case Nil
  then show ?case by simp
next
  case (Cons p ps)
  show ?case
  proof (cases "validate p s")
    case (Inl e)
    with Cons.prems show ?thesis by auto
  next
    case (Inr b)
    show ?thesis
    proof (cases b)
      case True
      with Inr Cons.prems show ?thesis by (auto split: sum.splits)
    next
      case False
      obtain out' evs' where r: "run_customPlugins ps (Suc i) vc s options = (out', evs')"
        by (cases "run_customPlugins ps (Suc i) vc s options")
      from Cons.IH [OF r] have "filter is_TaskQueue_event evs' = []" .
      with False Inr Cons.prems r show ?thesis by auto
    qed
  qed
qed

lemma play_search_events:
  "play_search c m s = (out, evs) \<Longrightarrow> filter is_TaskQueue_event evs = []"
  by (auto simp add: play_search_def filter_empty_conv split: option.splits sum.splits prod.splits)

lemma play_resolve_events:
  "play_resolve c vc song m md tc sk pos = (out, evs) \<Longrightarrow> filter is_TaskQueue_event evs = []"
  by (auto simp add: play_resolve_def split: sum.splits resolved.splits)

lemma play_try_events:
  assumes "play_try c vc song options m mem tc sk pos = (out, evs)"
  shows "filter is_TaskQueue_event evs = []"
proof -
  obtain po e1 where p: "(case song of
              Str s \<Rightarrow> run_customPlugins (customPlugins c) 0 vc s options
            | _ \<Rightarrow> (NotHandled, [])) = (po, e1)"
    by (cases "(case song of
              Str s \<Rightarrow> run_customPlugins (customPlugins c) 0 vc s options
            | _ \<Rightarrow> (NotHandled, []))")
  then have a: "filter is_TaskQueue_event e1 = []"
    by (cases song) (auto dest: run_customPlugins_events)
  obtain st e2 where q: "(case song of
                   Str s \<Rightarrow>
                     if \<not> isURL c song then play_search c m s
                     else (Found (Some song), [])
                 | _ \<Rightarrow> (Found (Some song), [])) = (st, e2)"
    by (cases "(case song of
                   Str s \<Rightarrow>
                     if \<not> isURL c song then play_search c m s
                     else (Found (Some song), [])
                 | _ \<Rightarrow> (Found (Some song), []))")
  then have b: "filter is_TaskQueue_event e2 = []"
    by (cases song) (auto dest: play_search_events split: if_splits)
  show ?thesis
    using assms a b unfolding play_try_def p q
    by (auto split: prod.splits plugin_outcome.splits search_step.splits dest: play_resolve_events)
qed

lemma play_checked:
  assumes "default_options oa = Some options" and "play_check vc options = None"
    and "play_try c vc song options (message_of (play_message options))
           (instance_of (play_member vc options)) (instance_of (play_textChannel options))
           (play_skip options) (play_position options) = (r, evs)"
  shows "play c d (Instance vc) song oa =
           ((case r of Inr u \<Rightarrow> Inr () | Inl (e, label) \<Rightarrow> Inl (play_catch e label)),
            play_before (getQueue d (OfVoiceBasedChannel vc)) @ evs
              @ play_finally (getQueue d (OfVoiceBasedChannel vc)))"
  using assms by (simp add: play_def Let_def split: sum.splits prod.splits)

lemma play_unchecked:
  "snd (play c d voiceChannel song oa) = [] \<or>
   (\<exists>vc evs. voiceChannel = Instance vc \<and> filter is_TaskQueue_event evs = [] \<and>
      snd (play c d voiceChannel song oa) =
        play_before (getQueue d (OfVoiceBasedChannel vc)) @ evs
          @ play_finally (getQueue d (OfVoiceBasedChannel vc)))"
proof (cases voiceChannel)
  case (Instance vc)
  show ?thesis
  proof (cases "default_options oa")
    case None
    with Instance show ?thesis by (simp add: play_def)
  next
    case (Some options)
    show ?thesis
    proof (cases "play_check vc options")
      case (Some e)
      with Instance \<open>default_options oa = Some options\<close> show ?thesis by (simp add: play_def)
    next
      case None
      obtain r evs where t: "play_try c vc song options (message_of (play_message options))
           (instance_of (play_member vc options)) (instance_of (play_textChannel options))
           (play_skip options) (play_position options) = (r, evs)"
        by (cases "play_try c vc song options (message_of (play_message options))
           (instance_of (play_member vc options)) (instance_of (play_textChannel options))
           (play_skip options) (play_position options)")
      from play_checked [OF \<open>default_options oa = Some options\<close> None t]
        play_try_events [OF t] Instance
      show ?thesis by auto
    qed
  qed
qed (simp_all add: play_def)

lemma TaskQueue_body:
  "filter is_TaskQueue_event body = [] \<Longrightarrow> fold (TaskQueue_call k) body tq = tq"
proof (induction body arbitrary: tq)
  case Nil
  show ?case by simp
next
  case (Cons ev body)
  then show ?case by (cases ev) (simp_all split: if_splits)
qed

lemma play_before_cases:
  "play_before queue = [] \<and> play_finally queue = [] \<or>
   (\<exists>q. queue = Some q \<and> \<not> hasResolveTask (taskQueue q) \<and>
      play_before queue = [TaskQueue_queuing (queue_id q) True] \<and>
      play_finally queue = [TaskQueue_resolve (queue_id q)])"
  by (cases queue) (simp_all add: play_before_def play_finally_def play_queuing_def)

lemma play_check_rejects:
  "po_message options = Present (NotMessage ch) \<or> po_textChannel options = Present Wrong
     \<or> po_member options = Present Wrong \<Longrightarrow>
   \<exists>e. play_check vc options = Some e \<and> invalid_argument e"
  by (auto simp add: play_check_def play_message_def play_textChannel_def play_member_def)


lemma run_customPlugins_position:
  "run_customPlugins ps i vc s options = (out, evs) \<Longrightarrow> ev \<in> set evs \<Longrightarrow> position_of ev = None"
proof (induction ps arbitrary: i out evs)
  case Nil
  then show ?case by simp
next
  case (Cons p ps)
  show ?case
  proof (cases "validate p s")
    case (Inl e)
    with Cons.prems show ?thesis by auto
  next
    case (Inr b)
    show ?thesis
    proof (cases b)
      case True
      with Inr Cons.prems show ?thesis by (auto split: sum.splits)
    next
      case False
      obtain out' evs' where r: "run_customPlugins ps (Suc i) vc s options = (out', evs')"
        by (cases "run_customPlugins ps (Suc i) vc s options")
      from Cons.IH [OF r] have "ev \<in> set evs' \<Longrightarrow> position_of ev = None" .
      with False Inr Cons.prems r show ?thesis by auto
    qed
  qed
qed

lemma play_search_position:
  "play_search c m s = (out, evs) \<Longrightarrow> ev \<in> set evs \<Longrightarrow> position_of ev = None"
  by (auto simp add: play_search_def split: option.splits sum.splits prod.splits)

lemma play_resolve_position:
  "play_resolve c vc song m md tc sk pos = (out, evs) \<Longrightarrow> ev \<in> set evs \<Longrightarrow>
   position_of ev = Some p \<Longrightarrow> p = pos"
  by (auto simp add: play_resolve_def split: sum.splits resolved.splits)

lemma play_try_position:
  assumes "play_try c vc song options m mem tc sk pos = (out, evs)"
    and "ev \<in> set evs" and "position_of ev = Some p"
  shows "p = pos"
proof -
  obtain po e1 where p: "(case song of
              Str s \<Rightarrow> run_customPlugins (customPlugins c) 0 vc s options
            | _ \<Rightarrow> (NotHandled, [])) = (po, e1)"
    by (cases "(case song of
              Str s \<Rightarrow> run_customPlugins (customPlugins c) 0 vc s options
            | _ \<Rightarrow> (NotHandled, []))")
  then have a: "ev \<in> set e1 \<Longrightarrow> position_of ev = None"
    by (cases song) (auto dest: run_customPlugins_position)
  obtain st e2 where q: "(case song of
                   Str s \<Rightarrow>
                     if \<not> isURL c song then play_search c m s
                     else (Found (Some song), [])
                 | _ \<Rightarrow> (Found (Some song), [])) = (st, e2)"
    by (cases "(case song of
                   Str s \<Rightarrow>
                     if \<not> isURL c song then play_search c m s
                     else (Found (Some song), [])
                 | _ \<Rightarrow> (Found (Some song), []))")
  then have b: "ev \<in> set e2 \<Longrightarrow> position_of ev = None"
    by (cases song) (auto dest: play_search_position split: if_splits)
  show ?thesis
    using assms a b unfolding play_try_def p q
    by (auto split: prod.splits plugin_outcome.splits search_step.splits
        dest: play_resolve_position)
qed

lemma play_lock_position:
  "ev \<in> set (play_before queue) \<or> ev \<in> set (play_finally queue) \<Longrightarrow> position_of ev = None"
  using play_before_cases [of queue] by auto

lemma play_events_position:
  assumes "default_options oa = Some options"
    and "ev \<in> set (snd (play c d voiceChannel song oa))" and "position_of ev = Some p"
  shows "p = play_position options"
proof (cases voiceChannel)
  case (Instance vc)
  show ?thesis
  proof (cases "play_check vc options")
    case (Some e)
    with Instance assms show ?thesis by (simp add: play_def)
  next
    case None
    obtain r evs where t: "play_try c vc song options (message_of (play_message options))
           (instance_of (play_member vc options)) (instance_of (play_textChannel options))
           (play_skip options) (play_position options) = (r, evs)"
      by (cases "play_try c vc song options (message_of (play_message options))
           (instance_of (play_member vc options)) (instance_of (play_textChannel options))
           (play_skip options) (play_position options)")
    let ?queue = "getQueue d (OfVoiceBasedChannel vc)"
    have sn: "snd (play c d (Instance vc) song oa) = play_before ?queue @ evs @ play_finally ?queue"
      by (simp add: play_checked [OF assms(1) None t])
    have "ev \<notin> set (play_before ?queue)" and "ev \<notin> set (play_finally ?queue)"
      using assms(3) play_lock_position [of ev ?queue] by auto
    with assms(2) Instance sn have m: "ev \<in> set evs"
      by simp
    show ?thesis
      by (rule play_try_position [OF t m assms(3)])
  qed
next
  case Falsy
  with assms(2) show ?thesis by (simp add: play_def)
next
  case Wrong
  with assms(2) show ?thesis by (simp add: play_def)
qed

section \<open>play: runs on concrete inputs\<close>

lemmas play_run =
  play_def play_check_def play_message_def play_textChannel_def play_member_def play_skip_def
  play_position_def play_try_def play_resolve_def play_search_def play_before_def
  play_finally_def play_queuing_def hasResolveTask_def getQueue_def QueueManager_get_def
  limit_1_def search.simps search_opts_def search_try_def to_result_def no_options_def
  collab0_def collab_down_def ytsr_one_def distube0_def distube_resolving_def queue0_def
  queue_resolving_def vc1_def with_message_def wrong_member_def skip_at_0_def at_3_def

lemma play_run_idle:
  "play collab0 distube0 (Instance vc1) (Str ''http://a'') OptionsUndefined =
     (Inr (),
      [TaskQueue_queuing ''g1'' True, Handler_resolve (Some (Str ''http://a'')),
       Handler_playSong \<lparr>url = ''http://a''\<rparr> None (Instance False) (Num 0),
       TaskQueue_resolve ''g1''])"
  by (simp add: play_run)


lemma play_run_early_return:
  "play collab0 distube0 (Instance vc1) (Str ''some words'') (OptionsObject with_message) =
     (Inr (),
      [TaskQueue_queuing ''g1'' True, Handler_searchSong ''some words'', TaskQueue_resolve ''g1''])"
  by (simp add: play_run)

lemma play_run_error:
  "play collab_down distube0 (Instance vc1) (Str ''some words'') OptionsUndefined =
     (Inl (Error ''PlayError'' (''http://v'' @ [CHR 0x0A] @ ''unavailable'')),
      [TaskQueue_queuing ''g1'' True,
       Ytsr \<lparr>rq_string = ''some words'', rq_type = VIDEO, rq_limit = Num 1,
              rq_safeSearch = False, rq_retried = Absent\<rparr>,
       Handler_resolve (Some (AResult \<lparr>sr_type = VIDEO, sr_url = ''http://v''\<rparr>)),
       TaskQueue_resolve ''g1''])"
  by (simp add: play_run)

lemma play_run_skip_at_0:
  "play collab0 distube0 (Instance vc1) (Str ''http://a'') (OptionsObject skip_at_0) =
     (Inr (),
      [TaskQueue_queuing ''g1'' True, Handler_resolve (Some (Str ''http://a'')),
       Handler_playSong \<lparr>url = ''http://a''\<rparr> None (Instance True) (Num 1),
       TaskQueue_resolve ''g1''])"
  by (simp add: play_run)


section \<open>search: the result is never empty\<close>

lemma search_nonempty:
  "fst (search y calls string options) = Inr rs \<Longrightarrow> rs \<noteq> []"
proof (cases "search_opts string options")
  case (Inl e)
  assume "fst (search y calls string options) = Inr rs"
  with search_invalid [OF Inl, of y calls] show ?thesis by simp
next
  case (Inr opts)
  assume r: "fst (search y calls string options) = Inr rs"
  show ?thesis
  proof (cases "search_try (y (length calls) opts)")
    case (Inr rs')
    from search_success [where y = y and calls = calls,
        OF \<open>search_opts string options = Inr opts\<close> Inr] r
    have "rs' = rs" by simp
    with search_try_nonempty [OF Inr] show ?thesis by simp
  next
    case (Inl e)
    show ?thesis
    proof (cases "truthy_bool (spread Falsy (retried options))")
      case True
      from search_no_retry [where y = y and calls = calls,
          OF \<open>search_opts string options = Inr opts\<close> Inl True] r
      show ?thesis by simp
    next
      case False
      from search_retry [where y = y and calls = calls,
          OF \<open>search_opts string options = Inr opts\<close> Inl False] r
      have "search_try (y (Suc (length calls)) (opts\<lparr>rq_retried := Present (Instance True)\<rparr>)) = Inr rs"
        by simp
      then show ?thesis by (rule search_try_nonempty)
    qed
  qed
qed


section \<open>play: when the lock of the task queue is taken\<close>








section \<open>play: the lock is released\<close>

text \<open>
  C2. Whenever \<open>play\<close> calls \<open>queuing\<close> on a task queue, whatever its arguments are
  and whatever the plugins, the search and the handler do (return, make \<open>play\<close>
  return early, or throw), that call is the first thing it does, with the flag
  \<open>true\<close>, the last thing it does is \<open>resolve()\<close> on the same task queue, and it
  calls no task queue in between: on that task queue its calls amount to one
  \<open>queuing(true)\<close> followed by one \<open>resolve()\<close>.
\<close>

theorem play_releases_lock:
  assumes "TaskQueue_queuing k b \<in> set (snd (play c d voiceChannel song oa))"
  shows "(\<exists>body. snd (play c d voiceChannel song oa)
                  = TaskQueue_queuing k True # body @ [TaskQueue_resolve k]
               \<and> filter is_TaskQueue_event body = [])
         \<and> TaskQueue_after k (snd (play c d voiceChannel song oa)) tq = resolve (queuing True tq)"
proof -
  from play_unchecked [of c d voiceChannel song oa] assms
  obtain vc evs where e: "filter is_TaskQueue_event evs = []"
    and s: "snd (play c d voiceChannel song oa) =
        play_before (getQueue d (OfVoiceBasedChannel vc)) @ evs
          @ play_finally (getQueue d (OfVoiceBasedChannel vc))"
    by auto
  from e have n: "TaskQueue_queuing k b \<notin> set evs"
    by (auto simp add: filter_empty_conv)
  let ?queue = "getQueue d (OfVoiceBasedChannel vc)"
  from play_before_cases [of ?queue]
  have t: "snd (play c d voiceChannel song oa) = TaskQueue_queuing k True # evs @ [TaskQueue_resolve k]"
  proof
    assume "play_before ?queue = [] \<and> play_finally ?queue = []"
    with assms s n show ?thesis by simp
  next
    assume "\<exists>q. ?queue = Some q \<and> \<not> hasResolveTask (taskQueue q) \<and>
      play_before ?queue = [TaskQueue_queuing (queue_id q) True] \<and>
      play_finally ?queue = [TaskQueue_resolve (queue_id q)]"
    then show ?thesis
    proof (elim exE conjE)
      fix q
      assume bf: "play_before ?queue = [TaskQueue_queuing (queue_id q) True]"
        and fin: "play_finally ?queue = [TaskQueue_resolve (queue_id q)]"
      from assms n have "k = queue_id q"
        unfolding s bf fin by auto
      with s bf fin show ?thesis by simp
    qed
  qed
  have "TaskQueue_after k (snd (play c d voiceChannel song oa)) tq = resolve (queuing True tq)"
    unfolding t by (simp add: TaskQueue_after_def TaskQueue_body [OF e])
  with t e show ?thesis by blast
qed

theorem play_releases_lock_witness:
  "TaskQueue_queuing ''g1'' True
     \<in> set (snd (play collab0 distube0 (Instance vc1) (Str ''http://a'') OptionsUndefined))
   \<and> last (snd (play collab0 distube0 (Instance vc1) (Str ''http://a'') OptionsUndefined))
       = TaskQueue_resolve ''g1''
   \<and> TaskQueue_queuing ''g1'' True
     \<in> set (snd (play collab0 distube0 (Instance vc1) (Str ''some words'')
                  (OptionsObject with_message)))
   \<and> last (snd (play collab0 distube0 (Instance vc1) (Str ''some words'')
                  (OptionsObject with_message)))
       = TaskQueue_resolve ''g1''
   \<and> TaskQueue_queuing ''g1'' True
     \<in> set (snd (play collab_down distube0 (Instance vc1) (Str ''some words'') OptionsUndefined))
   \<and> isl (fst (play collab_down distube0 (Instance vc1) (Str ''some words'') OptionsUndefined))
   \<and> last (snd (play collab_down distube0 (Instance vc1) (Str ''some words'') OptionsUndefined))
       = TaskQueue_resolve ''g1''
   \<and> TaskQueue_after ''g1''
        (snd (play collab_down distube0 (Instance vc1) (Str ''some words'') OptionsUndefined)) []
       = []"
proof -
  have a: "TaskQueue_queuing ''g1'' True
     \<in> set (snd (play collab0 distube0 (Instance vc1) (Str ''http://a'') OptionsUndefined))"
    by (simp add: play_run_idle)
  have b: "TaskQueue_queuing ''g1'' True
     \<in> set (snd (play collab0 distube0 (Instance vc1) (Str ''some words'')
                  (OptionsObject with_message)))"
    by (simp add: play_run_early_return)
  have c: "TaskQueue_queuing ''g1'' True
     \<in> set (snd (play collab_down distube0 (Instance vc1) (Str ''some words'') OptionsUndefined))"
    by (simp add: play_run_error)
  have e: "isl (fst (play collab_down distube0 (Instance vc1) (Str ''some words'') OptionsUndefined))"
    by (simp add: play_run_error)
  from play_releases_lock [OF a, of "[]"] have a': "last (snd (play collab0 distube0 (Instance vc1)
        (Str ''http://a'') OptionsUndefined)) = TaskQueue_resolve ''g1''"
    by auto
  from play_releases_lock [OF b, of "[]"] have b': "last (snd (play collab0 distube0 (Instance vc1)
        (Str ''some words'') (OptionsObject with_message))) = TaskQueue_resolve ''g1''"
    by auto
  from play_releases_lock [OF c, of "[]"] have c': "last (snd (play collab_down distube0 (Instance vc1)
        (Str ''some words'') OptionsUndefined)) = TaskQueue_resolve ''g1''"
    by auto
  from play_releases_lock [OF c, of "[]"] have c'': "TaskQueue_after ''g1''
        (snd (play collab_down distube0 (Instance vc1) (Str ''some words'') OptionsUndefined)) []
       = []"
    by (simp add: resolve_def queuing_def)
  from a a' b b' c e c' c'' show ?thesis
    by (intro conjI)
qed


section \<open>play: the checks come first\<close>

text \<open>
  C3. When the voice channel is not a supported voice channel, or the options are not an
  object, or the options hold a truthy \<open>message\<close> that is not a message, or a
  \<open>textChannel\<close> or a \<open>member\<close> of the wrong type, \<open>play\<close> throws an
  invalid-argument error and has done nothing by then: no call of the task queue, of a
  plugin, of the search or of the handler.
\<close>

theorem play_validates_first:
  assumes "\<not> is_instance voiceChannel \<or> oa = OptionsNotObject
           \<or> (\<exists>options ch. oa = OptionsObject options
                 \<and> (po_message options = Present (NotMessage ch)
                    \<or> po_textChannel options = Present Wrong
                    \<or> po_member options = Present Wrong))"
  shows "\<exists>e. play c d voiceChannel song oa = (Inl e, []) \<and> invalid_argument e"
proof (cases voiceChannel)
  case (Instance vc)
  show ?thesis
  proof (cases oa)
    case OptionsUndefined
    with assms Instance show ?thesis by simp
  next
    case OptionsNotObject
    with Instance show ?thesis by (simp add: play_def)
  next
    case (OptionsObject options)
    with assms Instance obtain ch where "po_message options = Present (NotMessage ch)
                    \<or> po_textChannel options = Present Wrong
                    \<or> po_member options = Present Wrong"
      by auto
    from play_check_rejects [OF this, of vc]
    obtain e where "play_check vc options = Some e" and "invalid_argument e"
      by blast
    with Instance OptionsObject show ?thesis by (simp add: play_def)
  qed
qed (simp_all add: play_def)



theorem play_validates_first_witness:
  "(\<exists>e. play collab0 distube0 Wrong (Str ''http://a'') OptionsUndefined = (Inl e, [])
        \<and> invalid_argument e)
   \<and> (\<exists>e. play collab0 distube0 (Instance vc1) (Str ''http://a'') OptionsNotObject = (Inl e, [])
        \<and> invalid_argument e)
   \<and> (\<exists>e. play collab0 distube0 (Instance vc1) (Str ''http://a'') (OptionsObject wrong_member)
          = (Inl e, [])
        \<and> invalid_argument e)"
proof -
  have a: "\<not> is_instance (Wrong :: VoiceBasedChannel js_value) \<or> OptionsUndefined = OptionsNotObject
           \<or> (\<exists>options ch. OptionsUndefined = OptionsObject options
                 \<and> (po_message options = Present (NotMessage ch)
                    \<or> po_textChannel options = Present Wrong
                    \<or> po_member options = Present Wrong))"
    by simp
  have b: "\<not> is_instance (Instance vc1) \<or> OptionsNotObject = OptionsNotObject
           \<or> (\<exists>options ch. OptionsNotObject = OptionsObject options
                 \<and> (po_message options = Present (NotMessage ch)
                    \<or> po_textChannel options = Present Wrong
                    \<or> po_member options = Present Wrong))"
    by simp
  have c: "\<not> is_instance (Instance vc1) \<or> OptionsObject wrong_member = OptionsNotObject
           \<or> (\<exists>options ch. OptionsObject wrong_member = OptionsObject options
                 \<and> (po_message options = Present (NotMessage ch)
                    \<or> po_textChannel options = Present Wrong
                    \<or> po_member options = Present Wrong))"
    by (simp add: wrong_member_def)
  from play_validates_first [OF a] play_validates_first [OF b] play_validates_first [OF c]
  show ?thesis
    by (intro conjI)
qed


section \<open>search: at most one retry\<close>

text \<open>
  C4, as the code has it. For options that pass the checks of \<open>search\<close>: \<open>search\<close>
  returns a non-empty array or throws. When the first attempt succeeds it is the only
  call of \<open>ytsr\<close>. When the first attempt fails (no item at all counts, as
  \<open>NO_RESULT\<close>) and \<open>options.retried\<close> is not truthy, \<open>search\<close> sets
  \<open>options.retried\<close> to \<open>true\<close> and calls \<open>ytsr\<close> exactly once more, with the
  same string and options but for that flag; what the second attempt gives, result or
  error, is what the caller gets. When the first attempt fails and \<open>options.retried\<close>
  is already truthy, the error is thrown at once and \<open>ytsr\<close> is not called again.
\<close>

theorem search_retries_once:
  assumes "search_opts string options = Inr opts"
  shows "(\<forall>rs. fst (search y calls string options) = Inr rs \<longrightarrow> rs \<noteq> [])
         \<and> (\<forall>rs. search_try (y (length calls) opts) = Inr rs \<longrightarrow>
               search y calls string options = (Inr rs, calls @ [opts], options))
         \<and> (\<forall>e. search_try (y (length calls) opts) = Inl e \<longrightarrow>
               \<not> truthy_bool (spread Falsy (retried options)) \<longrightarrow>
               search y calls string options =
                 (search_try (y (Suc (length calls)) (opts\<lparr>rq_retried := Present (Instance True)\<rparr>)),
                  calls @ [opts, opts\<lparr>rq_retried := Present (Instance True)\<rparr>],
                  options\<lparr>retried := Present (Instance True)\<rparr>))
         \<and> (\<forall>e. search_try (y (length calls) opts) = Inl e \<longrightarrow>
               truthy_bool (spread Falsy (retried options)) \<longrightarrow>
               search y calls string options = (Inl e, calls @ [opts], options))"
  using search_nonempty [of y calls string options] search_success [OF assms]
    search_retry [OF assms] search_no_retry [OF assms]
  by blast


theorem search_retries_once_witness:
  "search_opts ''q'' options_plain = Inr (request0 Absent)
   \<and> search ytsr_second [] ''q'' options_plain =
       (Inr [\<lparr>sr_type = VIDEO, sr_url = ''http://v''\<rparr>],
        [request0 Absent, request0 (Present (Instance True))],
        options_retried)
   \<and> search ytsr_down [] ''q'' options_plain =
       (Inl (Error ''Error'' ''network''),
        [request0 Absent, request0 (Present (Instance True))],
        options_retried)"
proof -
  have o: "search_opts ''q'' options_plain = Inr (request0 Absent)"
    by (simp add: search_opts_def options_plain_def request0_def)
  have r: "\<not> truthy_bool (spread Falsy (retried options_plain))"
    by (simp add: options_plain_def)
  have f1: "search_try (ytsr_second (length ([] :: ytsr_request list)) (request0 Absent))
              = Inl (DisTubeError NO_RESULT [])"
    by (simp add: search_try_def ytsr_second_def)
  have f2: "search_try (ytsr_down (length ([] :: ytsr_request list)) (request0 Absent))
              = Inl (Error ''Error'' ''network'')"
    by (simp add: search_try_def ytsr_down_def)
  from search_retries_once [OF o, of ytsr_second "[]"] f1 r
  have a: "search ytsr_second [] ''q'' options_plain =
             (search_try (ytsr_second (Suc (length ([] :: ytsr_request list)))
                 ((request0 Absent)\<lparr>rq_retried := Present (Instance True)\<rparr>)),
              [] @ [request0 Absent, (request0 Absent)\<lparr>rq_retried := Present (Instance True)\<rparr>],
              options_plain\<lparr>retried := Present (Instance True)\<rparr>)"
    by blast
  from search_retries_once [OF o, of ytsr_down "[]"] f2 r
  have b: "search ytsr_down [] ''q'' options_plain =
             (search_try (ytsr_down (Suc (length ([] :: ytsr_request list)))
                 ((request0 Absent)\<lparr>rq_retried := Present (Instance True)\<rparr>)),
              [] @ [request0 Absent, (request0 Absent)\<lparr>rq_retried := Present (Instance True)\<rparr>],
              options_plain\<lparr>retried := Present (Instance True)\<rparr>)"
    by blast
  show ?thesis
    by (simp add: o a b search_try_def ytsr_second_def ytsr_down_def to_result_def request0_def
        options_retried_def)
qed


text \<open>
  C4 as it was stated fails. Called with options in which \<open>retried\<close> is already
  \<open>true\<close>, and a search library that throws, \<open>search\<close> throws after a single call
  of \<open>ytsr\<close>: the failed first attempt is not retried.
\<close>

theorem search_retry_counterexample:
  "search_try (ytsr_down 0 (request0 (Present (Instance True)))) = Inl (Error ''Error'' ''network'')
   \<and> search ytsr_down [] ''q'' options_retried =
       (Inl (Error ''Error'' ''network''), [request0 (Present (Instance True))], options_retried)"
  by (simp add: search.simps ytsr_down_def options_retried_def options_plain_def request0_def
      search_opts_def search_try_def)


section \<open>createCustomPlaylist: what is rejected\<close>

text \<open>
  C5. \<open>createCustomPlaylist\<close> rejects an empty array of songs with the error
  \<open>EMPTY_ARRAY\<close>, and a non-empty array in which no element is an instance of
  \<open>Song\<close>, a URL, or a search result of type video with the error
  \<open>NO_VALID_SONG\<close>; in both cases the resolver has not been called, whatever the
  options are.
\<close>

theorem createCustomPlaylist_rejects:
  "createCustomPlaylist c (Array []) options = (Inl (DisTubeError EMPTY_ARRAY ''songs''), [])
   \<and> (xs \<noteq> [] \<longrightarrow>
        (\<forall>song \<in> set xs. \<not> instanceof_Song song \<and> \<not> isURL c song \<and> \<not> type_is_VIDEO song) \<longrightarrow>
        createCustomPlaylist c (Array xs) options = (Inl (DisTubeError NO_VALID_SONG []), []))"
proof -
  have "filter (valid_song c) xs = []"
    if "\<forall>song \<in> set xs. \<not> instanceof_Song song \<and> \<not> isURL c song \<and> \<not> type_is_VIDEO song"
    using that by (simp add: filter_empty_conv valid_song_iff)
  then show ?thesis
    by (simp add: createCustomPlaylist_def Let_def)
qed


theorem createCustomPlaylist_rejects_witness:
  "createCustomPlaylist collab0 (Array []) cp_options0
     = (Inl (DisTubeError EMPTY_ARRAY ''songs''), [])
   \<and> no_valid_songs \<noteq> []
   \<and> filter (\<lambda>song. instanceof_Song song \<or> isURL collab0 song \<or> type_is_VIDEO song)
        no_valid_songs = []
   \<and> createCustomPlaylist collab0 (Array no_valid_songs) cp_options0
     = (Inl (DisTubeError NO_VALID_SONG []), [])"
proof -
  have n: "no_valid_songs \<noteq> []"
    by (simp add: no_valid_songs_def)
  have v: "\<forall>song \<in> set no_valid_songs.
         \<not> instanceof_Song song \<and> \<not> isURL collab0 song \<and> \<not> type_is_VIDEO song"
    by (simp add: no_valid_songs_def collab0_def)
  then have f: "filter (\<lambda>song. instanceof_Song song \<or> isURL collab0 song \<or> type_is_VIDEO song)
        no_valid_songs = []"
    by (simp add: filter_empty_conv)
  from createCustomPlaylist_rejects [of collab0 cp_options0 no_valid_songs] n v f
  show ?thesis by blast
qed


section \<open>play: the position\<close>

text \<open>
  C9. The position that \<open>play\<close> works with is \<open>Number(options.position)\<close> when
  that is a number other than 0 and \<open>NaN\<close>; otherwise it is 1 when \<open>skip\<close> is
  truthy and 0 when it is not. So with \<open>skip\<close> true, a position of 0, a position
  that is not a number and no position at all each give 1. Every call that \<open>play\<close>
  makes of \<open>handler.playSong\<close> or \<open>handler.playPlaylist\<close> is given that position.
\<close>

theorem play_position_default:
  "(number_truthy (Number (po_position options)) \<longrightarrow>
      play_position options = Number (po_position options))
   \<and> (\<not> number_truthy (Number (po_position options)) \<longrightarrow>
        play_position options = (if truthy_bool (play_skip options) then Num 1 else Num 0))
   \<and> (po_skip options = Present (Instance True) \<longrightarrow>
        po_position options = Present (Num 0) \<or> po_position options = Present NaN
          \<or> po_position options = Absent \<longrightarrow>
        play_position options = Num 1)
   \<and> (default_options oa = Some options \<longrightarrow>
        (\<forall>ev \<in> set (snd (play c d voiceChannel song oa)).
           \<forall>p. position_of ev = Some p \<longrightarrow> p = play_position options))"
proof -
  have "play_position options = Num 1"
    if "po_skip options = Present (Instance True)"
      and "po_position options = Present (Num 0) \<or> po_position options = Present NaN
          \<or> po_position options = Absent"
    using that by (auto simp add: play_position_def play_skip_def)
  moreover have "p = play_position options"
    if "default_options oa = Some options" and "ev \<in> set (snd (play c d voiceChannel song oa))"
      and "position_of ev = Some p" for ev p
    using that by (rule play_events_position)
  ultimately show ?thesis
    by (simp add: play_position_def)
qed


theorem play_position_default_witness:
  "po_skip skip_at_0 = Present (Instance True)
   \<and> po_position skip_at_0 = Present (Num 0)
   \<and> play_position skip_at_0 = Num 1
   \<and> number_truthy (Number (po_position at_3))
   \<and> play_position at_3 = Num 3
   \<and> Handler_playSong \<lparr>url = ''http://a''\<rparr> None (Instance True) (play_position skip_at_0)
       \<in> set (snd (play collab0 distube0 (Instance vc1) (Str ''http://a'')
                    (OptionsObject skip_at_0)))"
proof -
  have s: "po_skip skip_at_0 = Present (Instance True)"
    and z: "po_position skip_at_0 = Present (Num 0)"
    by (simp_all add: skip_at_0_def no_options_def)
  have t: "number_truthy (Number (po_position at_3))"
    and n: "Number (po_position at_3) = Num 3"
    by (simp_all add: at_3_def no_options_def)
  from play_position_default [of skip_at_0] s z
  have a: "play_position skip_at_0 = Num 1"
    by blast
  from play_position_default [of at_3] t n
  have b: "play_position at_3 = Num 3"
    by simp
  have e: "Handler_playSong \<lparr>url = ''http://a''\<rparr> None (Instance True) (Num 1)
       \<in> set (snd (play collab0 distube0 (Instance vc1) (Str ''http://a'')
                    (OptionsObject skip_at_0)))"
    by (simp add: play_run_skip_at_0)
  from s z a t b e show ?thesis
    by simp
qed


section \<open>createCustomPlaylist: parallel and sequential\<close>

text \<open>
  C10. With a resolver that is a function of its arguments, \<open>createCustomPlaylist\<close>
  gives the same result with \<open>parallel\<close> true and with \<open>parallel\<close> false, for every
  array and every other option. When the array passes the checks, whatever
  \<open>parallel\<close> is: the resolver is called on the songs that the filter keeps, in the
  order of the array; a song whose resolution fails is left out and the failure goes no
  further; and the playlist is made of the songs that were resolved, in the order of the
  array.
\<close>

theorem createCustomPlaylist_parallel_sequential:
  "createCustomPlaylist c xs (options\<lparr>cp_parallel := Present (Instance True)\<rparr>)
     = createCustomPlaylist c xs (options\<lparr>cp_parallel := Present (Instance False)\<rparr>)
   \<and> (filter (valid_song c) ys \<noteq> [] \<longrightarrow>
        \<not> (truthy (spread Falsy (cp_member options))
            \<and> \<not> is_instance (spread Falsy (cp_member options))) \<longrightarrow>
        createCustomPlaylist c (Array ys) (options\<lparr>cp_parallel := p\<rparr>) =
          (new_Playlist c
             (List.map_filter
                (\<lambda>song. caught (handler_resolve c (Some song)
                           (instance_of (spread Falsy (cp_member options))) (cp_metadata options)))
                (filter (valid_song c) ys))
             (instance_of (spread Falsy (cp_member options))) (cp_properties options)
             (cp_metadata options),
           filter (valid_song c) ys))"
proof -
  have "createCustomPlaylist c (Array ys) (options\<lparr>cp_parallel := p\<rparr>) =
          (new_Playlist c
             (List.map_filter
                (\<lambda>song. caught (handler_resolve c (Some song)
                           (instance_of (spread Falsy (cp_member options))) (cp_metadata options)))
                (filter (valid_song c) ys))
             (instance_of (spread Falsy (cp_member options))) (cp_properties options)
             (cp_metadata options),
           filter (valid_song c) ys)"
    if "filter (valid_song c) ys \<noteq> []"
      and "\<not> (truthy (spread Falsy (cp_member options))
            \<and> \<not> is_instance (spread Falsy (cp_member options)))"
    using createCustomPlaylist_result
            [where c = c and xs = ys and options = "options\<lparr>cp_parallel := p\<rparr>"] that
    by simp
  with createCustomPlaylist_any_parallel [where c = c and xs = xs and options = options]
  show ?thesis
    by blast
qed


theorem createCustomPlaylist_parallel_sequential_witness:
  "createCustomPlaylist collab0 (Array three_songs)
      (cp_options0\<lparr>cp_parallel := Present (Instance True)\<rparr>)
    = (Inr \<lparr>pl_songs = [\<lparr>url = ''http://a''\<rparr>, \<lparr>url = ''http://v''\<rparr>], pl_url = []\<rparr>,
       [Str ''http://a'', Str ''http://gone'', AResult \<lparr>sr_type = VIDEO, sr_url = ''http://v''\<rparr>])
   \<and> createCustomPlaylist collab0 (Array three_songs)
      (cp_options0\<lparr>cp_parallel := Present (Instance False)\<rparr>)
    = (Inr \<lparr>pl_songs = [\<lparr>url = ''http://a''\<rparr>, \<lparr>url = ''http://v''\<rparr>], pl_url = []\<rparr>,
       [Str ''http://a'', Str ''http://gone'', AResult \<lparr>sr_type = VIDEO, sr_url = ''http://v''\<rparr>])"
proof -
  have f: "filter (valid_song collab0) three_songs =
             [Str ''http://a'', Str ''http://gone'', AResult \<lparr>sr_type = VIDEO, sr_url = ''http://v''\<rparr>]"
    by (simp add: three_songs_def valid_song_def collab0_def)
  then have ne: "filter (valid_song collab0) three_songs \<noteq> []"
    by simp
  have m: "\<not> (truthy (spread Falsy (cp_member cp_options0))
            \<and> \<not> is_instance (spread Falsy (cp_member cp_options0)))"
    by (simp add: cp_options0_def)
  from createCustomPlaylist_parallel_sequential
         [where c = collab0 and xs = "Array three_songs" and options = cp_options0
            and ys = three_songs and p = "Present (Instance False)"] ne m
  have e: "createCustomPlaylist collab0 (Array three_songs)
             (cp_options0\<lparr>cp_parallel := Present (Instance True)\<rparr>)
           = createCustomPlaylist collab0 (Array three_songs)
             (cp_options0\<lparr>cp_parallel := Present (Instance False)\<rparr>)"
    and r: "createCustomPlaylist collab0 (Array three_songs)
             (cp_options0\<lparr>cp_parallel := Present (Instance False)\<rparr>) =
          (new_Playlist collab0
             (List.map_filter
                (\<lambda>song. caught (handler_resolve collab0 (Some song)
                           (instance_of (spread Falsy (cp_member cp_options0)))
                           (cp_metadata cp_options0)))
                (filter (valid_song collab0) three_songs))
             (instance_of (spread Falsy (cp_member cp_options0))) (cp_properties cp_options0)
             (cp_metadata cp_options0),
           filter (valid_song collab0) three_songs)"
    by blast+
  have v1: "List.map_filter (\<lambda>song. caught (handler_resolve collab0 (Some song) m md))
              [Str ''http://a'', Str ''http://gone'',
               AResult \<lparr>sr_type = VIDEO, sr_url = ''http://v''\<rparr>]
            = [RSong \<lparr>url = ''http://a''\<rparr>, RSong \<lparr>url = ''http://v''\<rparr>]" for m md
    by (simp add: collab0_def List.map_filter_simps)
  have v2: "new_Playlist collab0 [RSong \<lparr>url = ''http://a''\<rparr>, RSong \<lparr>url = ''http://v''\<rparr>] m props md
            = Inr \<lparr>pl_songs = [\<lparr>url = ''http://a''\<rparr>, \<lparr>url = ''http://v''\<rparr>], pl_url = []\<rparr>"
    for m props md
    by (simp add: collab0_def)
  show ?thesis
    unfolding e r f v1 v2 by simp
qed


end
